theory Spec2Isabelle
  imports Complex_Main "HOL-Library.Char_ord" "HOL-Library.List_Lexorder" "HOL-Library.Multiset"
begin

section \<open>Customer segmentation: the decision-support core of \<open>utils/segmentation.py\<close>\<close>

text \<open>
  The development embeds \<open>run_full_analysis\<close> and its nested helpers. Python floats are
  read as exact reals (no rounding error, no NaN, no infinities); every \<open>raise\<close> of the
  source is a value \<open>Inl e\<close> of a sum type. The calls into pandas' CSV reader, scikit-learn
  and matplotlib are parameters of the model (record \<open>libs\<close>): their code is not part of
  the repository.
\<close>

subsection \<open>Exceptions\<close>

text \<open>
  \<open>NotADirectoryError\<close> is what opening a path below a regular file raises; like
  \<open>FileNotFoundError\<close> it is a subclass of \<open>OSError\<close>, and a different one.
\<close>

datatype py_error =
  FileNotFoundError | NotADirectoryError | KeyError | ZeroDivisionError | ValueError | IndexError

definition bind_sum :: "'e + 'a \<Rightarrow> ('a \<Rightarrow> 'e + 'b) \<Rightarrow> 'e + 'b" where
  "bind_sum m f = (case m of Inl e \<Rightarrow> Inl e | Inr x \<Rightarrow> f x)"

fun mapM_sum :: "('a \<Rightarrow> 'e + 'b) \<Rightarrow> 'a list \<Rightarrow> 'e + 'b list" where
  "mapM_sum f [] = Inr []"
| "mapM_sum f (x # xs) =
     (case f x of
        Inl e \<Rightarrow> Inl e
      | Inr y \<Rightarrow> (case mapM_sum f xs of Inl e \<Rightarrow> Inl e | Inr ys \<Rightarrow> Inr (y # ys)))"

subsection \<open>Certainty-factor engine (lines 97--102)\<close>

text \<open>Python's \<open>a / b\<close> on floats: a zero divisor raises \<open>ZeroDivisionError\<close>.\<close>

definition py_truediv :: "real \<Rightarrow> real \<Rightarrow> py_error + real" where
  "py_truediv a b = (if b = 0 then Inl ZeroDivisionError else Inr (a / b))"

definition cf_mapping :: "string \<rightharpoonup> real" where
  "cf_mapping = map_of
     [(''sangat_tinggi'', 0.9), (''tinggi'', 0.7), (''sedang'', 0.4), (''rendah'', 0.2),
      (''pasti'', 1.0), (''hampir_pasti'', 0.8), (''kemungkinan_besar'', 0.6),
      (''mungkin'', 0.4), (''tidak_tahu'', 0.0), (''mungkin_tidak'', -0.2),
      (''kemungkinan_besar_tidak'', -0.6), (''hampir_pasti_tidak'', -0.8),
      (''pasti_tidak'', -1.0)]"

definition calculate_cf_combination :: "real \<Rightarrow> real \<Rightarrow> py_error + real" where
  "calculate_cf_combination cf1 cf2 =
     (if cf1 \<ge> 0 \<and> cf2 \<ge> 0 then Inr (cf1 + cf2 * (1 - cf1))
      else if cf1 < 0 \<and> cf2 < 0 then Inr (cf1 + cf2 * (1 + cf1))
      else py_truediv (cf1 + cf2) (1 - min \<bar>cf1\<bar> \<bar>cf2\<bar>))"

subsection \<open>The data table\<close>

text \<open>
  One row of the CSV table, restricted to the fourteen columns the analysis reads. The
  numeric features are floats; \<open>Email_Opt_In\<close> and \<open>Target_Churn\<close> hold the truth value of
  the cell, \<open>Gender\<close> and \<open>Promotion_Response\<close> its text. A profile (one row of
  \<open>cluster_profiles\<close>) has the same columns.
\<close>

record customer =
  Age :: real
  Annual_Income :: real
  Total_Spend :: real
  Years_as_Customer :: real
  Num_of_Purchases :: real
  Average_Transaction_Amount :: real
  Num_of_Returns :: real
  Num_of_Support_Contacts :: real
  Satisfaction_Score :: real
  Last_Purchase_Days_Ago :: real
  Gender :: string
  Email_Opt_In :: bool
  Promotion_Response :: string
  Target_Churn :: bool

type_synonym profile = customer

text \<open>
  A data frame: the column names of the file and its rows. The fields of a row are read
  only after every required column has been found in \<open>columns\<close>.
\<close>

record dataframe =
  columns :: "string list"
  rows :: "customer list"

definition fitur_numerik :: "string list" where
  "fitur_numerik =
     [''Age'', ''Annual_Income'', ''Total_Spend'', ''Years_as_Customer'', ''Num_of_Purchases'',
      ''Average_Transaction_Amount'', ''Num_of_Returns'', ''Num_of_Support_Contacts'',
      ''Satisfaction_Score'', ''Last_Purchase_Days_Ago'']"

definition fitur_kategorikal :: "string list" where
  "fitur_kategorikal = [''Gender'', ''Email_Opt_In'', ''Promotion_Response'', ''Target_Churn'']"

text \<open>\<open>Series.mean()\<close>; it is read for non-empty columns only.\<close>

definition mean :: "real list \<Rightarrow> real" where
  "mean xs = sum_list xs / real (length xs)"

subsection \<open>Profiling (lines 71--75)\<close>

text \<open>Rounding to the nearest integer, ties to the even one, as \<open>numpy.round\<close> and \<open>format\<close> do.\<close>

definition round_half_even :: "real \<Rightarrow> int" where
  "round_half_even x =
     (let f = \<lfloor>x\<rfloor>; d = x - of_int f
      in if d < 1 / 2 then f else if 1 / 2 < d then f + 1 else if even f then f else f + 1)"

definition round2 :: "real \<Rightarrow> real" where
  "round2 x = of_int (round_half_even (x * 100)) / 100"

text \<open>
  \<open>Series.mode()\<close> lists the most frequent values in ascending order; \<open>mode()[0]\<close> is
  the least of them, and an empty mode gives the default \<open>'N/A'\<close>.
\<close>

definition mode_values :: "'a::linorder list \<Rightarrow> 'a list" where
  "mode_values xs =
     (let vs = sort (remdups xs);
          m = fold max (map (count_list xs) vs) 0
      in filter (\<lambda>v. count_list xs v = m) vs)"

definition agg_mode :: "'a::linorder \<Rightarrow> 'a list \<Rightarrow> 'a" where
  "agg_mode na xs = (case mode_values xs of [] \<Rightarrow> na | v # _ \<Rightarrow> v)"

text \<open>
  The aggregation of one group, rounded to two places. The default \<open>'N/A'\<close> of a boolean
  column is a non-empty string, which Python reads as true.
\<close>

definition agg_profile :: "customer list \<Rightarrow> profile" where
  "agg_profile g =
     \<lparr> Age = round2 (mean (map Age g)),
       Annual_Income = round2 (mean (map Annual_Income g)),
       Total_Spend = round2 (mean (map Total_Spend g)),
       Years_as_Customer = round2 (mean (map Years_as_Customer g)),
       Num_of_Purchases = round2 (mean (map Num_of_Purchases g)),
       Average_Transaction_Amount = round2 (mean (map Average_Transaction_Amount g)),
       Num_of_Returns = round2 (mean (map Num_of_Returns g)),
       Num_of_Support_Contacts = round2 (mean (map Num_of_Support_Contacts g)),
       Satisfaction_Score = round2 (mean (map Satisfaction_Score g)),
       Last_Purchase_Days_Ago = round2 (mean (map Last_Purchase_Days_Ago g)),
       Gender = agg_mode ''N/A'' (map Gender g),
       Email_Opt_In = agg_mode True (map Email_Opt_In g),
       Promotion_Response = agg_mode ''N/A'' (map Promotion_Response g),
       Target_Churn = agg_mode True (map Target_Churn g) \<rparr>"

text \<open>The rows of the group labelled \<open>k\<close>, in table order.\<close>

definition group_rows :: "customer list \<Rightarrow> nat list \<Rightarrow> nat \<Rightarrow> customer list" where
  "group_rows rs labels k = map fst (filter (\<lambda>rl. snd rl = k) (zip rs labels))"

text \<open>\<open>df.groupby('Cluster').agg(...).round(2)\<close>: one profile per label that occurs, by ascending label.\<close>

definition groupby_agg :: "customer list \<Rightarrow> nat list \<Rightarrow> (nat \<times> profile) list" where
  "groupby_agg rs labels =
     map (\<lambda>k. (k, agg_profile (group_rows rs labels k))) (sort (remdups labels))"

text \<open>\<open>table.loc[i]\<close> and \<open>dict[i]\<close>: a missing key raises \<open>KeyError\<close>.\<close>

definition loc :: "(nat \<times> 'a) list \<Rightarrow> nat \<Rightarrow> py_error + 'a" where
  "loc table i = (case map_of table i of None \<Rightarrow> Inl KeyError | Some v \<Rightarrow> Inr v)"

subsection \<open>Descriptions (lines 77--91)\<close>

text \<open>\<open>int(x)\<close> on a float truncates towards zero.\<close>

definition py_int :: "real \<Rightarrow> int" where
  "py_int x = (if 0 \<le> x then \<lfloor>x\<rfloor> else \<lceil>x\<rceil>)"

text \<open>The number that the format \<open>:.2f\<close> prints.\<close>

definition fmt_2f :: "real \<Rightarrow> real" where
  "fmt_2f x = round2 x"

text \<open>
  The description of a segment, as the values of the slots of its f-string, in order; the
  fixed text around them is left out. A numeric slot holds the number that is printed.
\<close>

record description =
  klaster :: nat
  usia :: int
  pendapatan :: real
  pengeluaran :: real
  kepuasan :: real
  dominan :: string
  frekuensi :: string
  respons :: string
  status_churn :: string

definition describe :: "dataframe \<Rightarrow> nat \<Rightarrow> profile \<Rightarrow> description" where
  "describe df i p =
     \<lparr> klaster = i,
       usia = py_int (Age p),
       pendapatan = fmt_2f (Annual_Income p / 1000000),
       pengeluaran = fmt_2f (Total_Spend p / 1000000),
       kepuasan = Satisfaction_Score p,
       dominan = (if Gender p = ''Pria'' then ''Pria'' else ''Wanita''),
       frekuensi = (if Num_of_Purchases p > mean (map Num_of_Purchases (rows df))
                    then ''sering'' else ''jarang''),
       respons = Promotion_Response p,
       status_churn = (if Target_Churn p then ''Cenderung Churn'' else ''Tidak Cenderung Churn'') \<rparr>"

definition cluster_descriptions_of ::
  "dataframe \<Rightarrow> (nat \<times> profile) list \<Rightarrow> nat \<Rightarrow> py_error + (nat \<times> description) list" where
  "cluster_descriptions_of df cluster_profiles n_clusters_chosen =
     mapM_sum (\<lambda>i. bind_sum (loc cluster_profiles i) (\<lambda>p. Inr (i, describe df i p)))
       [0..<n_clusters_chosen]"

subsection \<open>Priority scorer (lines 104--130)\<close>

text \<open>
  One criterion of the objective-specific block, \<open>if cond: skor += n; cf = combine(cf, v)\<close>,
  on the pair of the running score and \<open>cf_kriteria_kampanye\<close>.
\<close>

definition kriteria ::
  "bool \<Rightarrow> int \<Rightarrow> real \<Rightarrow> int \<times> real \<Rightarrow> py_error + int \<times> real" where
  "kriteria cond n v st =
     (if cond
      then bind_sum (calculate_cf_combination (snd st) v) (\<lambda>c. Inr (fst st + n, c))
      else Inr st)"

text \<open>The objective-specific block (lines 112--127), an \<open>if/elif\<close> chain with no \<open>else\<close>.\<close>

definition kriteria_kampanye ::
  "dataframe \<Rightarrow> profile \<Rightarrow> string \<Rightarrow> int \<times> real \<Rightarrow> py_error + int \<times> real" where
  "kriteria_kampanye df profile tujuan_kampanye st =
     (if tujuan_kampanye = ''meningkatkan penjualan umum'' then
        bind_sum (kriteria (Promotion_Response profile = ''Merespons'') 2
                    (the (cf_mapping ''hampir_pasti'')) st)
          (kriteria (Satisfaction_Score profile \<ge> 4) 1 (the (cf_mapping ''tinggi'')))
      else if tujuan_kampanye = ''mencegah pelanggan churn'' then
        bind_sum (kriteria (Target_Churn profile) 3 (the (cf_mapping ''pasti'')) st)
          (kriteria (Last_Purchase_Days_Ago profile > mean (map Last_Purchase_Days_Ago (rows df))) 2
             (the (cf_mapping ''hampir_pasti'')))
      else if tujuan_kampanye = ''meningkatkan loyalitas pelanggan'' then
        bind_sum (kriteria (\<not> Target_Churn profile) 3 (the (cf_mapping ''pasti'')) st)
          (\<lambda>st. bind_sum
             (kriteria (Years_as_Customer profile > mean (map Years_as_Customer (rows df))) 2
                (the (cf_mapping ''hampir_pasti'')) st)
             (kriteria (Satisfaction_Score profile \<ge> 4) 1 (the (cf_mapping ''tinggi''))))
      else if tujuan_kampanye = ''mendapatkan pelanggan baru'' then
        bind_sum (kriteria (Promotion_Response profile = ''Merespons'') 2
                    (the (cf_mapping ''hampir_pasti'')) st)
          (kriteria (Years_as_Customer profile < mean (map Years_as_Customer (rows df))) 1
             (the (cf_mapping ''tinggi'')))
      else if tujuan_kampanye = ''menjual produk tambahan'' then
        bind_sum (kriteria (Num_of_Purchases profile > mean (map Num_of_Purchases (rows df))) 2
                    (the (cf_mapping ''hampir_pasti'')) st)
          (kriteria (Promotion_Response profile = ''Merespons'') 1 (the (cf_mapping ''tinggi'')))
      else Inr st)"

text \<open>Purchasing power (lines 106--108): the score so far and \<open>cf_daya_beli\<close>.\<close>

definition daya_beli :: "profile \<Rightarrow> real \<Rightarrow> int \<times> real" where
  "daya_beli profile harga_produk =
     (if Annual_Income profile > harga_produk * 10 then (0 + 3, the (cf_mapping ''sangat_tinggi''))
      else if Annual_Income profile > harga_produk * 5 then (0 + 2, the (cf_mapping ''tinggi''))
      else (0 + 1, the (cf_mapping ''sedang'')))"

text \<open>Spend level (lines 109--110): the score so far and \<open>cf_spend\<close>, initially \<open>0.0\<close>.\<close>

definition spend_level :: "profile \<Rightarrow> real \<Rightarrow> int \<Rightarrow> int \<times> real" where
  "spend_level profile harga_produk skor =
     (if Total_Spend profile > harga_produk * 2 then (skor + 2, the (cf_mapping ''tinggi''))
      else if Total_Spend profile > harga_produk then (skor + 1, the (cf_mapping ''sedang''))
      else (skor, 0))"

definition hitung_skor_prioritas_cf ::
  "dataframe \<Rightarrow> profile \<Rightarrow> real \<Rightarrow> string \<Rightarrow> py_error + int \<times> real" where
  "hitung_skor_prioritas_cf df profile harga_produk tujuan_kampanye =
     (let (skor1, cf_daya_beli) = daya_beli profile harga_produk;
          (skor2, cf_spend) = spend_level profile harga_produk skor1
      in bind_sum (kriteria_kampanye df profile tujuan_kampanye (skor2, 0))
           (\<lambda>(skor, cf_kriteria_kampanye).
              bind_sum (calculate_cf_combination cf_daya_beli cf_spend)
                (\<lambda>c. bind_sum (calculate_cf_combination c cf_kriteria_kampanye)
                   (\<lambda>cf_total. Inr (skor, cf_total)))))"

subsection \<open>Priority list (lines 132--138)\<close>

record prioritas =
  Klaster_ID :: nat
  Skor_Prioritas :: int
  CF_Prioritas :: real
  Deskripsi :: description

text \<open>
  \<open>list.sort(key=..., reverse=True)\<close>: a stable sort by descending key, that is a stable
  ascending sort by the negated key.
\<close>

definition sort_prioritas :: "prioritas list \<Rightarrow> prioritas list" where
  "sort_prioritas items = sort_key (\<lambda>x. - Skor_Prioritas x) items"

definition prioritas_item ::
  "dataframe \<Rightarrow> (nat \<times> profile) list \<Rightarrow> (nat \<times> description) list \<Rightarrow> real \<Rightarrow> string \<Rightarrow> nat
     \<Rightarrow> py_error + prioritas" where
  "prioritas_item df cluster_profiles cluster_descriptions harga_produk tujuan_kampanye cid =
     bind_sum (loc cluster_profiles cid) (\<lambda>profile.
     bind_sum (hitung_skor_prioritas_cf df profile harga_produk tujuan_kampanye) (\<lambda>(skor, cf).
     bind_sum (loc cluster_descriptions cid) (\<lambda>d.
       Inr \<lparr> Klaster_ID = cid, Skor_Prioritas = skor, CF_Prioritas = cf, Deskripsi = d \<rparr>)))"

definition prioritas_klaster_of ::
  "dataframe \<Rightarrow> (nat \<times> profile) list \<Rightarrow> (nat \<times> description) list \<Rightarrow> nat \<Rightarrow> real \<Rightarrow> string
     \<Rightarrow> py_error + prioritas list" where
  "prioritas_klaster_of df cluster_profiles cluster_descriptions n_clusters_chosen harga_produk
       tujuan_kampanye =
     bind_sum
       (mapM_sum (prioritas_item df cluster_profiles cluster_descriptions harga_produk tujuan_kampanye)
          [0..<n_clusters_chosen])
       (\<lambda>items. Inr (sort_prioritas items))"

subsection \<open>Rule engine (lines 140--166)\<close>

record rule_fc =
  rule_IF :: "profile \<Rightarrow> bool"
  rule_THEN :: string
  rule_DESC :: string

definition marketing_rules_fc :: "dataframe \<Rightarrow> rule_fc list" where
  "marketing_rules_fc df =
     [\<lparr> rule_IF = (\<lambda>p. Annual_Income p > 10000000 \<and> Satisfaction_Score p \<ge> 4),
        rule_THEN = ''Kirim penawaran eksklusif/produk premium'',
        rule_DESC = ''Cocok untuk pelanggan berpenghasilan tinggi dan puas.'' \<rparr>,
      \<lparr> rule_IF = (\<lambda>p. Target_Churn p \<and>
                      Last_Purchase_Days_Ago p > mean (map Last_Purchase_Days_Ago (rows df))),
        rule_THEN = ''Luncurkan kampanye retensi dengan diskon menarik'',
        rule_DESC = ''Prioritas tinggi untuk mencegah pelanggan beralih.'' \<rparr>,
      \<lparr> rule_IF = (\<lambda>p. Promotion_Response p = ''Merespons'' \<and>
                      Num_of_Purchases p < mean (map Num_of_Purchases (rows df))),
        rule_THEN = ''Tawarkan promosi untuk mendorong pembelian berulang'',
        rule_DESC = ''Manfaatkan respons promosi untuk meningkatkan frekuensi pembelian.'' \<rparr>,
      \<lparr> rule_IF = (\<lambda>p. Average_Transaction_Amount p
                        < mean (map Average_Transaction_Amount (rows df)) \<and>
                      Num_of_Purchases p > mean (map Num_of_Purchases (rows df))),
        rule_THEN = ''Fokus pada up-selling atau cross-selling'',
        rule_DESC = ''Dorong peningkatan nilai keranjang belanja.'' \<rparr>]"

record rule_bc =
  THEN_IF :: "profile \<Rightarrow> bool"
  STRATEGY :: string

definition marketing_rules_bc :: "dataframe \<Rightarrow> (string \<times> rule_bc) list" where
  "marketing_rules_bc df =
     [(''meningkatkan loyalitas pelanggan'',
       \<lparr> THEN_IF = (\<lambda>p. \<not> Target_Churn p \<and>
                       Years_as_Customer p > mean (map Years_as_Customer (rows df)) \<and>
                       Satisfaction_Score p \<ge> 4),
         STRATEGY = ''Kirim hadiah loyalitas atau undangan acara eksklusif.'' \<rparr>),
      (''mencegah pelanggan churn'',
       \<lparr> THEN_IF = (\<lambda>p. Target_Churn p \<and>
                       Last_Purchase_Days_Ago p > mean (map Last_Purchase_Days_Ago (rows df))),
         STRATEGY = ''Luncurkan kampanye retensi agresif.'' \<rparr>),
      (''mendapatkan pelanggan baru'',
       \<lparr> THEN_IF = (\<lambda>p. Promotion_Response p = ''Merespons'' \<and>
                       Years_as_Customer p < mean (map Years_as_Customer (rows df))),
         STRATEGY = ''Iklankan melalui kanal yang menarik demografi klaster ini.'' \<rparr>)]"

text \<open>Forward chaining (lines 152--157): per ranked segment, the rules that fire, in rule order.\<close>

definition fc_results_of ::
  "dataframe \<Rightarrow> (nat \<times> profile) list \<Rightarrow> prioritas list \<Rightarrow> py_error + (nat \<times> rule_fc list) list" where
  "fc_results_of df cluster_profiles prioritas_klaster =
     mapM_sum
       (\<lambda>item. bind_sum (loc cluster_profiles (Klaster_ID item))
          (\<lambda>profile. Inr (Klaster_ID item, filter (\<lambda>rule. rule_IF rule profile) (marketing_rules_fc df))))
       prioritas_klaster"

record hasil_bc =
  bc_Klaster_ID :: nat
  bc_Deskripsi :: description
  Strategi :: string

text \<open>
  Backward chaining (lines 159--166). The loop yields one optional entry per segment id;
  \<open>bc_results\<close> keeps those that are present.
\<close>

definition bc_results_of ::
  "dataframe \<Rightarrow> (nat \<times> profile) list \<Rightarrow> (nat \<times> description) list \<Rightarrow> nat \<Rightarrow> string
     \<Rightarrow> py_error + hasil_bc list" where
  "bc_results_of df cluster_profiles cluster_descriptions n_clusters_chosen tujuan_kampanye =
     (case map_of (marketing_rules_bc df) tujuan_kampanye of
        None \<Rightarrow> Inr []
      | Some rule \<Rightarrow>
          bind_sum
            (mapM_sum
               (\<lambda>cid. bind_sum (loc cluster_profiles cid) (\<lambda>profile.
                  if THEN_IF rule profile
                  then bind_sum (loc cluster_descriptions cid) (\<lambda>d.
                         Inr (Some \<lparr> bc_Klaster_ID = cid, bc_Deskripsi = d, Strategi = STRATEGY rule \<rparr>))
                  else Inr None))
               [0..<n_clusters_chosen])
            (\<lambda>entries. Inr (List.map_filter id entries)))"

subsection \<open>Hierarchical planner (lines 168--186)\<close>

record plan =
  Mayor :: string
  Steps :: "string list"

definition plans :: "(string \<times> plan) list" where
  "plans =
     [(''Kirim penawaran eksklusif/produk premium'',
       \<lparr> Mayor = ''Luncheon Kampanye Produk Premium'',
         Steps = [''Desain Materi Pemasaran'', ''Segmentasikan Audiens'', ''Jadwalkan Pengiriman''] \<rparr>),
      (''Luncurkan kampanye retensi dengan diskon menarik'',
       \<lparr> Mayor = ''Implementasi Program Retensi'',
         Steps = [''Identifikasi Pelanggan Berisiko'', ''Rancang Penawaran Personalisasi'',
                  ''Sertakan Survei Kepuasan''] \<rparr>),
      (''Tawarkan promosi untuk mendorong pembelian berulang'',
       \<lparr> Mayor = ''Optimalisasi Promosi Pembelian Berulang'',
         Steps = [''Analisis Produk Sering Dibeli'', ''Buat Kupon/Poin Loyalitas'',
                  ''Kirim Notifikasi Otomatis''] \<rparr>),
      (''Fokus pada up-selling atau cross-selling'',
       \<lparr> Mayor = ''Strategi Peningkatan Nilai Keranjang'',
         Steps = [''Identifikasi Produk Komplementer'', ''Implementasikan Rekomendasi di Situs'',
                  ''Latih Tim Penjualan''] \<rparr>),
      (''Kirim hadiah loyalitas atau undangan acara eksklusif.'',
       \<lparr> Mayor = ''Program Apresiasi Pelanggan Loyal'',
         Steps = [''Verifikasi Kriteria Loyalitas'', ''Pilih Jenis Hadiah/Acara'',
                  ''Komunikasikan Manfaat Program''] \<rparr>),
      (''Luncurkan kampanye retensi agresif.'',
       \<lparr> Mayor = ''Kampanye Retensi Agresif'',
         Steps = [''Hubungi Pelanggan Secara Personal'',
                  ''Tawarkan Diskon '' @ [CHR 0x27] @ ''Win-Back'' @ [CHR 0x27],
                  ''Analisis Feedback Churn''] \<rparr>),
      (''Iklankan melalui kanal yang menarik demografi klaster ini.'',
       \<lparr> Mayor = ''Akuisisi Pelanggan Baru Tertarget'',
         Steps = [''Analisis Preferensi Media'', ''Buat Konten Iklan Relevan'',
                  ''Monitor Kinerja Iklan''] \<rparr>)]"

definition get_hierarchical_plan :: "string \<Rightarrow> plan" where
  "get_hierarchical_plan strategy_type =
     (case map_of plans strategy_type of
        Some pl \<Rightarrow> pl
      | None \<Rightarrow> \<lparr> Mayor = ''Strategi Umum'', Steps = [''Langkah umum 1'', ''Langkah umum 2''] \<rparr>)"

text \<open>
  The strategy that feeds the planner (lines 180--182): the first backward-chaining result,
  else the first forward-chaining firing of the top-ranked segment; \<open>prioritas_klaster[0]\<close>
  raises \<open>IndexError\<close> on an empty list.
\<close>

definition top_strategy_of ::
  "hasil_bc list \<Rightarrow> (nat \<times> rule_fc list) list \<Rightarrow> prioritas list \<Rightarrow> py_error + string option" where
  "top_strategy_of bc_results fc_results prioritas_klaster =
     (case bc_results of
        b # _ \<Rightarrow> Inr (Some (Strategi b))
      | [] \<Rightarrow>
          (case prioritas_klaster of
             [] \<Rightarrow> Inl IndexError
           | item # _ \<Rightarrow>
               (case map_of fc_results (Klaster_ID item) of
                  Some (rule # _) \<Rightarrow> Inr (Some (rule_THEN rule))
                | _ \<Rightarrow> Inr None)))"

subsection \<open>Orchestrator (lines 9--212)\<close>

text \<open>
  The library calls of the pipeline, as parameters: \<open>pd.read_csv\<close> (line 26); scaling,
  one-hot encoding and concatenation into the feature matrix (lines 39--47); the sweep
  over \<open>K = 2..10\<close> with its two plots (lines 50--64); \<open>KMeans(...).fit_predict\<close> at the
  chosen \<open>K\<close> (lines 66--67), which gives one label per row; \<open>GaussianNB().fit\<close> (line 95).
  Each of them may raise.
\<close>

record ('m, 'fig) libs =
  read_csv :: "string \<Rightarrow> py_error + dataframe"
  preprocess :: "dataframe \<Rightarrow> py_error + 'm"
  evaluate :: "'m \<Rightarrow> py_error + 'fig"
  kmeans_fit_predict :: "nat \<Rightarrow> 'm \<Rightarrow> py_error + nat list"
  gnb_fit :: "'m \<Rightarrow> nat list \<Rightarrow> py_error + unit"

text \<open>
  The result dictionary of a completed run, one field per key. The key \<open>final_summary\<close>, a
  report text assembled from the fields below, is left out.
\<close>

record 'fig result_bundle =
  evaluation_plot :: "'fig"
  df_with_clusters :: "(customer \<times> nat) list"
  cluster_profiles :: "(nat \<times> profile) list"
  cluster_descriptions :: "(nat \<times> description) list"
  prioritas_klaster :: "prioritas list"
  forward_chaining_results :: "(nat \<times> rule_fc list) list"
  backward_chaining_results :: "hasil_bc list"
  hierarchical_plan :: "plan option"
  top_strategy_for_plan :: "string option"

text \<open>What \<open>run_full_analysis\<close> returns: the dictionary \<open>{"error": msg}\<close>, or a full result.\<close>

datatype 'fig results = Error string | Results "'fig result_bundle"

definition file_error :: "string \<Rightarrow> string" where
  "file_error file_path = ''File tidak ditemukan di path: '' @ file_path"

definition schema_error :: "string \<Rightarrow> string" where
  "schema_error col =
     ''Kolom yang dibutuhkan '' @ [CHR 0x27] @ col @ [CHR 0x27]
       @ '' tidak ditemukan di dalam file CSV Anda.''"

text \<open>The required column that the loop of lines 35--37 meets first and does not find.\<close>

definition missing_column :: "dataframe \<Rightarrow> string option" where
  "missing_column df =
     find (\<lambda>col. col \<notin> set (columns df)) (fitur_numerik @ fitur_kategorikal)"

text \<open>
  Lines 39--212, after the schema check. \<open>df['Cluster'] = labels\<close> raises \<open>ValueError\<close> when
  the labels are not one per row; \<open>if top_strategy:\<close> holds for a non-empty string.
\<close>

definition analyse ::
  "('m, 'fig) libs \<Rightarrow> dataframe \<Rightarrow> nat \<Rightarrow> real \<Rightarrow> string \<Rightarrow> py_error + 'fig result_bundle" where
  "analyse libs df n_clusters_chosen harga_produk tujuan_kampanye =
     bind_sum (preprocess libs df) (\<lambda>df_processed.
     bind_sum (evaluate libs df_processed) (\<lambda>fig_eval.
     bind_sum (kmeans_fit_predict libs n_clusters_chosen df_processed) (\<lambda>labels.
     if length labels \<noteq> length (rows df) then Inl ValueError else
     let profiles = groupby_agg (rows df) labels in
     bind_sum (cluster_descriptions_of df profiles n_clusters_chosen) (\<lambda>descriptions.
     bind_sum (gnb_fit libs df_processed labels) (\<lambda>_.
     bind_sum (prioritas_klaster_of df profiles descriptions n_clusters_chosen harga_produk
                 tujuan_kampanye) (\<lambda>ranked.
     bind_sum (fc_results_of df profiles ranked) (\<lambda>fc_results.
     bind_sum (bc_results_of df profiles descriptions n_clusters_chosen tujuan_kampanye)
       (\<lambda>bc_results.
     bind_sum (top_strategy_of bc_results fc_results ranked) (\<lambda>top_strategy.
     let chosen = (case top_strategy of
                     None \<Rightarrow> None
                   | Some s \<Rightarrow> if s = [] then None else Some s)
     in Inr \<lparr> evaluation_plot = fig_eval,
              df_with_clusters = zip (rows df) labels,
              cluster_profiles = profiles,
              cluster_descriptions = descriptions,
              prioritas_klaster = ranked,
              forward_chaining_results = fc_results,
              backward_chaining_results = bc_results,
              hierarchical_plan = map_option get_hierarchical_plan chosen,
              top_strategy_for_plan = chosen \<rparr>)))))))))"

definition run_full_analysis ::
  "('m, 'fig) libs \<Rightarrow> string \<Rightarrow> nat \<Rightarrow> real \<Rightarrow> string \<Rightarrow> py_error + 'fig results" where
  "run_full_analysis libs file_path n_clusters_chosen harga_produk tujuan_kampanye =
     (case read_csv libs file_path of
        Inl e \<Rightarrow> if e = FileNotFoundError then Inr (Error (file_error file_path)) else Inl e
      | Inr df \<Rightarrow>
          (case missing_column df of
             Some col \<Rightarrow> Inr (Error (schema_error col))
           | None \<Rightarrow>
               bind_sum (analyse libs df n_clusters_chosen harga_produk tujuan_kampanye)
                 (\<lambda>b. Inr (Results b))))"

subsection \<open>The caller (\<open>app.py\<close>, lines 26--37)\<close>

text \<open>\<open>str.lower()\<close> on ASCII text: the letters \<open>A\<close> to \<open>Z\<close> move to \<open>a\<close> to \<open>z\<close>.\<close>

definition lower_char :: "char \<Rightarrow> char" where
  "lower_char c =
     (case map_of (zip ''ABCDEFGHIJKLMNOPQRSTUVWXYZ'' ''abcdefghijklmnopqrstuvwxyz'') c of
        Some d \<Rightarrow> d
      | None \<Rightarrow> c)"

definition lower :: "string \<Rightarrow> string" where
  "lower s = map lower_char s"

text \<open>The dashboard lower-cases the selected objective before it calls the analysis.\<close>

definition app_run ::
  "('m, 'fig) libs \<Rightarrow> string \<Rightarrow> nat \<Rightarrow> real \<Rightarrow> string \<Rightarrow> py_error + 'fig results" where
  "app_run libs file_path n_clusters harga_produk selected =
     run_full_analysis libs file_path n_clusters harga_produk (lower selected)"

text \<open>
  Comparison without regard to case, stated on character codes and not through \<open>lower\<close>:
  two characters agree when they are equal, or when one is an upper-case ASCII letter (code
  65 to 90) and the other has that code plus 32. A casing of a label is a string that
  agrees with it character by character.
\<close>

definition sama_huruf :: "char \<Rightarrow> char \<Rightarrow> bool" where
  "sama_huruf c d =
     (c = d \<or>
      (65 \<le> (of_char c :: nat) \<and> (of_char c :: nat) \<le> 90 \<and> (of_char d :: nat) = of_char c + 32) \<or>
      (65 \<le> (of_char d :: nat) \<and> (of_char d :: nat) \<le> 90 \<and> (of_char c :: nat) = of_char d + 32))"

definition casing_of :: "string \<Rightarrow> string \<Rightarrow> bool" where
  "casing_of t l = list_all2 sama_huruf t l"

text \<open>The five objectives that the scorer recognises.\<close>

definition tujuan_dikenal :: "string list" where
  "tujuan_dikenal =
     [''meningkatkan penjualan umum'', ''mencegah pelanggan churn'',
      ''meningkatkan loyalitas pelanggan'', ''mendapatkan pelanggan baru'',
      ''menjual produk tambahan'']"

subsection \<open>The two price blocks of the scorer\<close>

text \<open>The score and the combined certainty factor that lines 106--110 contribute.\<close>

definition base_skor :: "profile \<Rightarrow> real \<Rightarrow> int" where
  "base_skor p h = fst (spend_level p h (fst (daya_beli p h)))"

definition base_cf :: "profile \<Rightarrow> real \<Rightarrow> real" where
  "base_cf p h =
     snd (daya_beli p h)
       + snd (spend_level p h (fst (daya_beli p h))) * (1 - snd (daya_beli p h))"

subsection \<open>Sample data\<close>

definition contoh_pelanggan :: "real \<Rightarrow> real \<Rightarrow> real \<Rightarrow> real \<Rightarrow> bool \<Rightarrow> customer" where
  "contoh_pelanggan age income spend recency churn =
     \<lparr> Age = age, Annual_Income = income, Total_Spend = spend, Years_as_Customer = 5,
       Num_of_Purchases = 10, Average_Transaction_Amount = 100, Num_of_Returns = 0,
       Num_of_Support_Contacts = 0, Satisfaction_Score = 3, Last_Purchase_Days_Ago = recency,
       Gender = ''Pria'', Email_Opt_In = True, Promotion_Response = ''Merespons'',
       Target_Churn = churn \<rparr>"

definition contoh_df :: dataframe where
  "contoh_df =
     \<lparr> columns = fitur_numerik @ fitur_kategorikal,
       rows = [contoh_pelanggan 35 12000000 900000 10 False,
               contoh_pelanggan 36 4000000 300000 50 True] \<rparr>"

definition contoh_profiles :: "(nat \<times> profile) list" where
  "contoh_profiles =
     [(0, contoh_pelanggan 35 12000000 900000 10 False),
      (1, contoh_pelanggan 36 4000000 300000 50 True),
      (2, contoh_pelanggan 40 12000000 900000 20 False)]"

definition contoh_descriptions :: "(nat \<times> description) list" where
  "contoh_descriptions = map (\<lambda>(i, p). (i, describe contoh_df i p)) contoh_profiles"

text \<open>Library calls that succeed: the file holds \<open>d\<close>, and the clustering returns \<open>labels\<close>.\<close>

definition contoh_libs :: "dataframe option \<Rightarrow> nat list \<Rightarrow> (unit, unit) libs" where
  "contoh_libs d labels =
     \<lparr> read_csv = (\<lambda>_. case d of None \<Rightarrow> Inl FileNotFoundError | Some df \<Rightarrow> Inr df),
       preprocess = (\<lambda>_. Inr ()),
       evaluate = (\<lambda>_. Inr ()),
       kmeans_fit_predict = (\<lambda>_ _. Inr labels),
       gnb_fit = (\<lambda>_ _. Inr ()) \<rparr>"

text \<open>Library calls of which the first, the CSV reader, raises \<open>e\<close>.\<close>

definition contoh_libs_gagal :: "py_error \<Rightarrow> (unit, unit) libs" where
  "contoh_libs_gagal e =
     \<lparr> read_csv = (\<lambda>_. Inl e),
       preprocess = (\<lambda>_. Inr ()),
       evaluate = (\<lambda>_. Inr ()),
       kmeans_fit_predict = (\<lambda>_ _. Inr []),
       gnb_fit = (\<lambda>_ _. Inr ()) \<rparr>"

subsection \<open>Results of the scorer that carry a certainty factor in \<open>[0, 1]\<close>\<close>

definition skor_cf_ok :: "py_error + int \<times> real \<Rightarrow> bool" where
  "skor_cf_ok m = (\<exists>s c. m = Inr (s, c) \<and> 0 \<le> c \<and> c \<le> 1)"

section \<open>Theorems\<close>

lemma bind_sum_simps [simp]:
  "bind_sum (Inl e) f = Inl e"
  "bind_sum (Inr x) f = f x"
  by (simp_all add: bind_sum_def)

subsection \<open>The certainty-factor combination\<close>

lemma cf_nonneg_range:
  fixes a b :: real
  assumes "0 \<le> a" "a \<le> 1" "0 \<le> b" "b \<le> 1"
  shows "0 \<le> a + b * (1 - a)" and "a + b * (1 - a) \<le> 1"
proof -
  have "0 \<le> b * (1 - a)" using assms by simp
  then show "0 \<le> a + b * (1 - a)" using assms by simp
  have "0 \<le> (1 - a) * (1 - b)" using assms by simp
  then show "a + b * (1 - a) \<le> 1" by (simp add: algebra_simps)
qed

lemma cf_neg_range:
  fixes a b :: real
  assumes "-1 \<le> a" "a < 0" "-1 \<le> b" "b < 0"
  shows "-1 \<le> a + b * (1 + a)" and "a + b * (1 + a) \<le> 1"
proof -
  have "0 \<le> (1 + a) * (1 + b)" using assms by simp
  then show "-1 \<le> a + b * (1 + a)" by (simp add: algebra_simps)
  have "b * (1 + a) \<le> 0" using assms by (simp add: mult_nonpos_nonneg)
  then show "a + b * (1 + a) \<le> 1" using assms by simp
qed

lemma cf_mixed_range:
  fixes a b :: real
  assumes "\<not> (0 \<le> a \<and> 0 \<le> b)" "\<not> (a < 0 \<and> b < 0)" "min \<bar>a\<bar> \<bar>b\<bar> < 1"
    "\<bar>a\<bar> \<le> 1" "\<bar>b\<bar> \<le> 1"
  shows "-1 \<le> (a + b) / (1 - min \<bar>a\<bar> \<bar>b\<bar>)" and "(a + b) / (1 - min \<bar>a\<bar> \<bar>b\<bar>) \<le> 1"
proof -
  let ?d = "1 - min \<bar>a\<bar> \<bar>b\<bar>"
  have d: "0 < ?d" using assms(3) by simp
  have up: "a + b \<le> ?d" and lo: "- ?d \<le> a + b"
    using assms by (auto simp: min_def abs_if split: if_splits)
  from lo d show "-1 \<le> (a + b) / ?d" by (simp add: pos_le_divide_eq)
  from up d show "(a + b) / ?d \<le> 1" by (simp add: pos_divide_le_eq)
qed

text \<open>
  C1 (amended). For certainty factors in \<open>[-1, 1]\<close> the combination returns a value in
  \<open>[-1, 1]\<close>, except at the mixed-sign pairs whose smaller magnitude is 1: the source has
  no saturation guard, and the theorem says nothing about those pairs.
\<close>

theorem cf_combination_in_range:
  assumes "-1 \<le> cf1" "cf1 \<le> 1" "-1 \<le> cf2" "cf2 \<le> 1"
    and "(0 \<le> cf1 \<and> 0 \<le> cf2) \<or> (cf1 < 0 \<and> cf2 < 0) \<or> min \<bar>cf1\<bar> \<bar>cf2\<bar> \<noteq> 1"
  shows "\<exists>v. calculate_cf_combination cf1 cf2 = Inr v \<and> -1 \<le> v \<and> v \<le> 1"
proof -
  consider (pos) "0 \<le> cf1 \<and> 0 \<le> cf2" | (neg) "cf1 < 0 \<and> cf2 < 0"
    | (mixed) "\<not> (0 \<le> cf1 \<and> 0 \<le> cf2)" "\<not> (cf1 < 0 \<and> cf2 < 0)"
    by blast
  then show ?thesis
  proof cases
    case pos
    then have "0 \<le> cf1 + cf2 * (1 - cf1)" "cf1 + cf2 * (1 - cf1) \<le> 1"
      using assms cf_nonneg_range by blast+
    with pos show ?thesis by (simp add: calculate_cf_combination_def)
  next
    case neg
    then have "-1 \<le> cf1 + cf2 * (1 + cf1)" "cf1 + cf2 * (1 + cf1) \<le> 1"
      using assms cf_neg_range by blast+
    with neg show ?thesis by (simp add: calculate_cf_combination_def)
  next
    case mixed
    have ab: "\<bar>cf1\<bar> \<le> 1" "\<bar>cf2\<bar> \<le> 1" using assms by (simp_all add: abs_le_iff)
    from mixed assms(5) have "min \<bar>cf1\<bar> \<bar>cf2\<bar> \<noteq> 1" by blast
    with ab have lt: "min \<bar>cf1\<bar> \<bar>cf2\<bar> < 1" by (simp add: min_def split: if_splits)
    have rng: "-1 \<le> (cf1 + cf2) / (1 - min \<bar>cf1\<bar> \<bar>cf2\<bar>)"
      "(cf1 + cf2) / (1 - min \<bar>cf1\<bar> \<bar>cf2\<bar>) \<le> 1"
      using cf_mixed_range [OF mixed lt ab] by blast+
    have "calculate_cf_combination cf1 cf2 = Inr ((cf1 + cf2) / (1 - min \<bar>cf1\<bar> \<bar>cf2\<bar>))"
      using mixed lt unfolding calculate_cf_combination_def py_truediv_def
      by (simp only: if_False) simp
    with rng show ?thesis by blast
  qed
qed

theorem cf_combination_in_range_witness:
  "\<exists>v. calculate_cf_combination (4 / 5) (- 1 / 5) = Inr v \<and> -1 \<le> v \<and> v \<le> 1"
  using cf_combination_in_range [of "4 / 5" "- 1 / 5"] by simp

theorem cf_combination_unguarded:
  "calculate_cf_combination 1 (-1) = Inl ZeroDivisionError"
  by (simp add: calculate_cf_combination_def py_truediv_def)

text \<open>
  C3. The combination computes \<open>cf1 + cf2 * (1 - cf1)\<close> when both factors are
  non-negative, \<open>cf1 + cf2 * (1 + cf1)\<close> when both are negative, and otherwise the
  quotient \<open>(cf1 + cf2) / (1 - min |cf1| |cf2|)\<close>, with Python's division: the quotient
  where the divisor is not zero, \<open>ZeroDivisionError\<close> where it is.
\<close>

theorem cf_combination_formula:
  "(0 \<le> cf1 \<and> 0 \<le> cf2 \<longrightarrow>
      calculate_cf_combination cf1 cf2 = Inr (cf1 + cf2 * (1 - cf1))) \<and>
   (cf1 < 0 \<and> cf2 < 0 \<longrightarrow>
      calculate_cf_combination cf1 cf2 = Inr (cf1 + cf2 * (1 + cf1))) \<and>
   (\<not> (0 \<le> cf1 \<and> 0 \<le> cf2) \<and> \<not> (cf1 < 0 \<and> cf2 < 0) \<longrightarrow>
      calculate_cf_combination cf1 cf2 = py_truediv (cf1 + cf2) (1 - min \<bar>cf1\<bar> \<bar>cf2\<bar>) \<and>
      (min \<bar>cf1\<bar> \<bar>cf2\<bar> \<noteq> 1 \<longrightarrow>
         calculate_cf_combination cf1 cf2 = Inr ((cf1 + cf2) / (1 - min \<bar>cf1\<bar> \<bar>cf2\<bar>))))"
  by (auto simp: calculate_cf_combination_def py_truediv_def)

theorem cf_combination_formula_witness:
  "calculate_cf_combination (2 / 5) (7 / 10) = Inr (41 / 50) \<and>
   calculate_cf_combination (- 1 / 5) (- 3 / 5) = Inr (- 17 / 25) \<and>
   calculate_cf_combination (4 / 5) (- 1 / 5) = Inr (3 / 4)"
  using cf_combination_formula [of "2 / 5" "7 / 10"]
    cf_combination_formula [of "- 1 / 5" "- 3 / 5"]
    cf_combination_formula [of "4 / 5" "- 1 / 5"]
  by (simp add: py_truediv_def)

subsection \<open>The priority scorer\<close>

lemma cf_values:
  "the (cf_mapping ''sangat_tinggi'') = 9 / 10"
  "the (cf_mapping ''tinggi'') = 7 / 10"
  "the (cf_mapping ''sedang'') = 2 / 5"
  "the (cf_mapping ''pasti'') = 1"
  "the (cf_mapping ''hampir_pasti'') = 4 / 5"
  by (simp_all add: cf_mapping_def)

lemma combine_nonneg:
  "0 \<le> a \<Longrightarrow> 0 \<le> b \<Longrightarrow> calculate_cf_combination a b = Inr (a + b * (1 - a))"
  by (simp add: calculate_cf_combination_def)

lemma daya_beli_cf: "snd (daya_beli p h) \<in> {9 / 10, 7 / 10, 2 / 5}"
  by (simp add: daya_beli_def cf_values)

lemma spend_level_cf: "snd (spend_level p h s) \<in> {7 / 10, 2 / 5, 0}"
  by (simp add: spend_level_def cf_values)

lemma daya_beli_nonneg: "0 \<le> snd (daya_beli p h)"
  using daya_beli_cf [of p h] by auto

lemma spend_level_nonneg: "0 \<le> snd (spend_level p h s)"
  using spend_level_cf [of p h s] by auto

lemma base_cf_range: "0 \<le> base_cf p h" "base_cf p h \<le> 1"
proof -
  have a: "0 \<le> snd (daya_beli p h)" "snd (daya_beli p h) \<le> 1"
    using daya_beli_cf [of p h] by auto
  have b: "0 \<le> snd (spend_level p h (fst (daya_beli p h)))"
    "snd (spend_level p h (fst (daya_beli p h))) \<le> 1"
    using spend_level_cf [of p h "fst (daya_beli p h)"] by auto
  show "0 \<le> base_cf p h" "base_cf p h \<le> 1"
    unfolding base_cf_def using cf_nonneg_range [OF a b] by blast+
qed

text \<open>The scorer on a non-negative objective-specific factor: neither combination raises.\<close>

lemma hitung_eq:
  assumes k: "kriteria_kampanye df p t (base_skor p h, 0) = Inr (s, c)" and c: "0 \<le> c"
  shows "hitung_skor_prioritas_cf df p h t = Inr (s, base_cf p h + c * (1 - base_cf p h))"
proof -
  have b: "calculate_cf_combination (snd (daya_beli p h))
             (snd (spend_level p h (fst (daya_beli p h)))) = Inr (base_cf p h)"
    unfolding base_cf_def by (rule combine_nonneg [OF daya_beli_nonneg spend_level_nonneg])
  have t: "calculate_cf_combination (base_cf p h) c = Inr (base_cf p h + c * (1 - base_cf p h))"
    by (rule combine_nonneg [OF base_cf_range(1) c])
  show ?thesis
    using k unfolding hitung_skor_prioritas_cf_def base_skor_def [symmetric]
    by (simp add: split_beta b t base_skor_def)
qed

lemma kriteria_churn:
  assumes "Target_Churn profile"
    and "mean (map Last_Purchase_Days_Ago (rows df)) < Last_Purchase_Days_Ago profile"
  shows "kriteria_kampanye df profile ''mencegah pelanggan churn'' (skor, 0) = Inr (skor + 5, 1)"
  using assms by (simp add: kriteria_kampanye_def kriteria_def cf_values combine_nonneg)

lemma lower_known: "l \<in> set tujuan_dikenal \<Longrightarrow> lower l = l"
  by (auto simp: tujuan_dikenal_def lower_def lower_char_def)

lemma unknown_kriteria:
  "t \<notin> set tujuan_dikenal \<Longrightarrow> kriteria_kampanye df p t st = Inr st"
  by (simp add: tujuan_dikenal_def kriteria_kampanye_def)

lemma unknown_bc:
  "t \<notin> set tujuan_dikenal \<Longrightarrow> bc_results_of df cps cds n t = Inr []"
  by (simp add: tujuan_dikenal_def bc_results_of_def marketing_rules_bc_def)

text \<open>
  C5. For the objective \<open>mencegah pelanggan churn\<close> and a profile with the churn flag set
  and a recency above the dataset mean, the objective-specific block adds exactly 5 to the
  score (3 + 2) and takes its certainty factor from 0.0 to exactly 1.0: the factor of
  \<open>pasti\<close> is 1.0, that of \<open>hampir_pasti\<close> is 0.8, and combining 1.0 with 0.8 gives 1.0. The
  segment's total is then the score of the price blocks plus 5, with certainty factor 1.0.
\<close>

theorem churn_objective_contribution:
  assumes "Target_Churn profile"
    and "mean (map Last_Purchase_Days_Ago (rows df)) < Last_Purchase_Days_Ago profile"
  shows "kriteria_kampanye df profile ''mencegah pelanggan churn'' (skor, 0) = Inr (skor + 5, 1) \<and>
         the (cf_mapping ''pasti'') = 1 \<and> the (cf_mapping ''hampir_pasti'') = 4 / 5 \<and>
         calculate_cf_combination 0 (the (cf_mapping ''pasti'')) = Inr 1 \<and>
         calculate_cf_combination 1 (the (cf_mapping ''hampir_pasti'')) = Inr 1 \<and>
         hitung_skor_prioritas_cf df profile harga ''mencegah pelanggan churn''
           = Inr (base_skor profile harga + 5, 1)"
proof -
  note k = kriteria_churn [OF assms]
  have "hitung_skor_prioritas_cf df profile harga ''mencegah pelanggan churn''
          = Inr (base_skor profile harga + 5, 1)"
    using hitung_eq [OF k, of harga] by simp
  then show ?thesis
    using k by (simp add: cf_values combine_nonneg)
qed

theorem churn_objective_contribution_witness:
  "kriteria_kampanye contoh_df (contoh_pelanggan 36 4000000 300000 50 True)
      ''mencegah pelanggan churn'' (0, 0) = Inr (5, 1) \<and>
   hitung_skor_prioritas_cf contoh_df (contoh_pelanggan 36 4000000 300000 50 True) 100000
      ''mencegah pelanggan churn'' = Inr (10, 1)"
  using churn_objective_contribution
    [of "contoh_pelanggan 36 4000000 300000 50 True" contoh_df 0 100000]
  by (simp add: contoh_df_def contoh_pelanggan_def mean_def base_skor_def daya_beli_def
      spend_level_def)

text \<open>
  C6. For an objective outside the five recognised labels the objective-specific block
  leaves the score and the certainty factor 0.0 as they are and raises nothing, the scorer
  returns the score and factor of the price blocks alone, and backward chaining returns
  the empty list.
\<close>

theorem unrecognised_objective:
  assumes "tujuan \<notin> set tujuan_dikenal"
  shows "kriteria_kampanye df profile tujuan (skor, 0) = Inr (skor, 0) \<and>
         hitung_skor_prioritas_cf df profile harga tujuan
           = Inr (base_skor profile harga, base_cf profile harga) \<and>
         bc_results_of df cps cds n tujuan = Inr []"
proof -
  have k: "kriteria_kampanye df profile tujuan (base_skor profile harga, 0)
             = Inr (base_skor profile harga, 0)"
    by (rule unknown_kriteria [OF assms])
  have "hitung_skor_prioritas_cf df profile harga tujuan
          = Inr (base_skor profile harga, base_cf profile harga)"
    using hitung_eq [OF k] by simp
  then show ?thesis
    by (simp add: unknown_kriteria [OF assms] unknown_bc [OF assms])
qed

theorem unrecognised_objective_witness:
  "kriteria_kampanye contoh_df (contoh_pelanggan 36 4000000 300000 50 True)
      ''memperluas pasar'' (4, 0) = Inr (4, 0) \<and>
   hitung_skor_prioritas_cf contoh_df (contoh_pelanggan 36 4000000 300000 50 True) 100000
      ''memperluas pasar'' = Inr (5, 97 / 100) \<and>
   bc_results_of contoh_df contoh_profiles contoh_descriptions 3 ''memperluas pasar'' = Inr []"
  using unrecognised_objective
    [of "''memperluas pasar''" contoh_df "contoh_pelanggan 36 4000000 300000 50 True" 4 100000
      contoh_profiles contoh_descriptions 3]
  by (simp add: tujuan_dikenal_def base_skor_def base_cf_def daya_beli_def spend_level_def
      contoh_pelanggan_def cf_values)

lemma kode_huruf_besar:
  "map of_char ''ABCDEFGHIJKLMNOPQRSTUVWXYZ'' = [65..<91 :: nat]"
  by (simp add: upt_rec)

lemma huruf_besar_iff:
  "c \<in> set ''ABCDEFGHIJKLMNOPQRSTUVWXYZ'' \<longleftrightarrow> 65 \<le> (of_char c :: nat) \<and> (of_char c :: nat) \<le> 90"
proof -
  have "c \<in> set ''ABCDEFGHIJKLMNOPQRSTUVWXYZ''
          \<longleftrightarrow> (of_char c :: nat) \<in> of_char ` set ''ABCDEFGHIJKLMNOPQRSTUVWXYZ''"
    by (simp only: inj_image_mem_iff [OF inj_of_char])
  also have "of_char ` set ''ABCDEFGHIJKLMNOPQRSTUVWXYZ'' = set [65..<91 :: nat]"
    by (simp only: kode_huruf_besar [symmetric] set_map)
  also have "(of_char c :: nat) \<in> set [65..<91 :: nat]
               \<longleftrightarrow> 65 \<le> (of_char c :: nat) \<and> (of_char c :: nat) < 91"
    by (simp only: set_upt atLeastLessThan_iff)
  also have "\<dots> \<longleftrightarrow> 65 \<le> (of_char c :: nat) \<and> (of_char c :: nat) \<le> 90"
    by arith
  finally show ?thesis .
qed

lemma lower_char_besar:
  assumes "c \<in> set ''ABCDEFGHIJKLMNOPQRSTUVWXYZ''"
  shows "(of_char (lower_char c) :: nat) = of_char c + 32"
  using assms by (auto simp: lower_char_def)

lemma lower_char_lain:
  assumes "c \<notin> set ''ABCDEFGHIJKLMNOPQRSTUVWXYZ''"
  shows "lower_char c = c"
proof -
  have "map_of (zip ''ABCDEFGHIJKLMNOPQRSTUVWXYZ'' ''abcdefghijklmnopqrstuvwxyz'') c = None"
    using assms by (subst map_of_zip_is_None) simp_all
  then show ?thesis unfolding lower_char_def by simp
qed

lemma lower_char_naik:
  assumes "65 \<le> (of_char c :: nat)" "(of_char c :: nat) \<le> 90"
    and "(of_char d :: nat) = of_char c + 32"
  shows "lower_char c = d" "lower_char d = d"
proof -
  have "c \<in> set ''ABCDEFGHIJKLMNOPQRSTUVWXYZ''"
    using assms(1,2) by (simp only: huruf_besar_iff)
  then have "(of_char (lower_char c) :: nat) = of_char d"
    using lower_char_besar assms(3) by simp
  then show "lower_char c = d" by (simp only: of_char_eq_iff)
  have "\<not> ((of_char d :: nat) \<le> 90)" using assms by simp
  then have "d \<notin> set ''ABCDEFGHIJKLMNOPQRSTUVWXYZ''"
    by (simp only: huruf_besar_iff) simp
  then show "lower_char d = d" by (rule lower_char_lain)
qed

lemma sama_huruf_lower: "sama_huruf c d \<Longrightarrow> lower_char c = lower_char d"
  unfolding sama_huruf_def using lower_char_naik by metis

lemma casing_lower: "casing_of t l \<Longrightarrow> lower t = lower l"
  unfolding casing_of_def lower_def
  by (induction t l rule: list_all2_induct) (simp_all add: sama_huruf_lower)

text \<open>
  C7 (amended). Inside the analysis the objective is compared exactly: any string that is
  not, character for character, one of the five recognised labels contributes nothing to
  the score and gives no backward-chaining result, and that includes every other casing of
  a recognised label. The caller lower-cases the selected label before the call: for every
  casing of a recognised label the lower-cased string is that label, so through the caller
  the analysis runs exactly as for the lower-case label.
\<close>

theorem objective_lowered_by_caller:
  "(t \<notin> set tujuan_dikenal \<longrightarrow>
      kriteria_kampanye df p t st = Inr st \<and> bc_results_of df cps cds n t = Inr []) \<and>
   (l \<in> set tujuan_dikenal \<and> casing_of t l \<longrightarrow>
      lower t = l \<and>
      app_run libs file_path n harga t = run_full_analysis libs file_path n harga l \<and>
      (t \<noteq> l \<longrightarrow>
         t \<notin> set tujuan_dikenal \<and> kriteria_kampanye df p t st = Inr st \<and>
         bc_results_of df cps cds n t = Inr []))"
proof (intro conjI impI)
  assume "t \<notin> set tujuan_dikenal"
  then show "kriteria_kampanye df p t st = Inr st" "bc_results_of df cps cds n t = Inr []"
    by (simp_all add: unknown_kriteria unknown_bc)
next
  assume a: "l \<in> set tujuan_dikenal \<and> casing_of t l"
  then have "lower t = lower l" using casing_lower by blast
  with a show low: "lower t = l" using lower_known by simp
  then show "app_run libs file_path n harga t = run_full_analysis libs file_path n harga l"
    by (simp add: app_run_def)
  assume ne: "t \<noteq> l"
  show out: "t \<notin> set tujuan_dikenal"
  proof
    assume "t \<in> set tujuan_dikenal"
    then have "lower t = t" by (rule lower_known)
    with low ne show False by simp
  qed
  then show "kriteria_kampanye df p t st = Inr st" "bc_results_of df cps cds n t = Inr []"
    by (simp_all add: unknown_kriteria unknown_bc)
qed

theorem objective_lowered_by_caller_witness:
  "lower ''Mencegah Pelanggan Churn'' = ''mencegah pelanggan churn'' \<and>
   app_run (contoh_libs (Some contoh_df) [0, 1]) ''data.csv'' 3 100000 ''Mencegah Pelanggan Churn''
     = run_full_analysis (contoh_libs (Some contoh_df) [0, 1]) ''data.csv'' 3 100000
         ''mencegah pelanggan churn'' \<and>
   kriteria_kampanye contoh_df (contoh_pelanggan 36 4000000 300000 50 True)
       ''Mencegah Pelanggan Churn'' (0, 0) = Inr (0, 0) \<and>
   bc_results_of contoh_df contoh_profiles contoh_descriptions 3 ''Mencegah Pelanggan Churn''
     = Inr []"
proof -
  have c: "''mencegah pelanggan churn'' \<in> set tujuan_dikenal \<and>
           casing_of ''Mencegah Pelanggan Churn'' ''mencegah pelanggan churn''"
    by (simp add: tujuan_dikenal_def casing_of_def sama_huruf_def)
  have ne: "''Mencegah Pelanggan Churn'' \<noteq> ''mencegah pelanggan churn''" by simp
  from objective_lowered_by_caller
    [of "''Mencegah Pelanggan Churn''" contoh_df "contoh_pelanggan 36 4000000 300000 50 True"
      "(0, 0)" contoh_profiles contoh_descriptions 3 "''mencegah pelanggan churn''"
      "contoh_libs (Some contoh_df) [0, 1]" "''data.csv''" 100000] c ne
  show ?thesis by blast
qed

theorem objective_case_sensitive:
  "kriteria_kampanye contoh_df (contoh_pelanggan 36 4000000 300000 50 True)
      ''Mencegah Pelanggan Churn'' (0, 0) = Inr (0, 0) \<and>
   kriteria_kampanye contoh_df (contoh_pelanggan 36 4000000 300000 50 True)
      ''mencegah pelanggan churn'' (0, 0) = Inr (5, 1) \<and>
   bc_results_of contoh_df contoh_profiles contoh_descriptions 3 ''Mencegah Pelanggan Churn''
     = Inr [] \<and>
   map_sum id (map bc_Klaster_ID)
     (bc_results_of contoh_df contoh_profiles contoh_descriptions 3 ''mencegah pelanggan churn'')
     = Inr [1]"
  by (simp add: kriteria_kampanye_def kriteria_def contoh_df_def contoh_pelanggan_def mean_def
      cf_values combine_nonneg bc_results_of_def marketing_rules_bc_def contoh_profiles_def
      contoh_descriptions_def loc_def upt_rec List.map_filter_def)

subsection \<open>The priority ranking\<close>

lemma insort_key_ties:
  fixes f :: "'a \<Rightarrow> int" and g :: "'a \<Rightarrow> nat"
  assumes "sorted_wrt (\<lambda>a b. f a < f b \<or> (f a = f b \<and> g a < g b)) ys"
    and "\<forall>y\<in>set ys. g x < g y"
  shows "sorted_wrt (\<lambda>a b. f a < f b \<or> (f a = f b \<and> g a < g b)) (insort_key f x ys)"
  using assms by (induction ys) (auto simp: set_insort_key)

lemma sort_key_ties:
  fixes f :: "'a \<Rightarrow> int" and g :: "'a \<Rightarrow> nat"
  assumes "sorted_wrt (\<lambda>a b. g a < g b) xs"
  shows "sorted_wrt (\<lambda>a b. f a < f b \<or> (f a = f b \<and> g a < g b)) (sort_key f xs)"
  using assms by (induction xs) (auto intro!: insort_key_ties)

lemma insort_key_map:
  "map g (insort_key (\<lambda>x. f (g x)) x ys) = insort_key f (g x) (map g ys)"
  by (induction ys) auto

lemma sort_key_map:
  "map g (sort_key (\<lambda>x. f (g x)) xs) = sort_key f (map g xs)"
  by (induction xs) (auto simp: insort_key_map)

lemma mapM_sum_keys:
  assumes "mapM_sum f xs = Inr ys" and "\<And>x y. f x = Inr y \<Longrightarrow> g y = x"
  shows "map g ys = xs"
  using assms by (induction xs arbitrary: ys) (auto split: sum.splits)

lemma prioritas_item_id:
  "prioritas_item df cps cds harga tujuan cid = Inr y \<Longrightarrow> Klaster_ID y = cid"
  by (auto simp: prioritas_item_def bind_sum_def split: sum.splits prod.splits)

text \<open>
  C4. The priority list is the list of the segments \<open>0, ..., K-1\<close> sorted by descending
  integer score with a stable sort: it is a permutation of the items built in ascending
  segment id, scores never increase along it, items of equal score keep their input order
  (so they stand in ascending segment id), and the order of the segment ids is a function of
  the ids and the scores alone, whatever the certainty factors are.
\<close>

theorem priority_ranking_stable:
  assumes "prioritas_klaster_of df cps cds n harga tujuan = Inr ranked"
  shows "\<exists>items. mapM_sum (prioritas_item df cps cds harga tujuan) [0..<n] = Inr items \<and>
           map Klaster_ID items = [0..<n] \<and>
           ranked = sort_prioritas items \<and>
           mset ranked = mset items \<and>
           sorted_wrt (\<lambda>a b. Skor_Prioritas b \<le> Skor_Prioritas a) ranked \<and>
           (\<forall>k. filter (\<lambda>x. Skor_Prioritas x = k) ranked
                = filter (\<lambda>x. Skor_Prioritas x = k) items) \<and>
           sorted_wrt (\<lambda>a b. Skor_Prioritas b < Skor_Prioritas a \<or>
                              (Skor_Prioritas a = Skor_Prioritas b \<and> Klaster_ID a < Klaster_ID b))
             ranked \<and>
           map Klaster_ID ranked
             = map fst (sort_key (\<lambda>c. - snd c)
                 (map (\<lambda>x. (Klaster_ID x, Skor_Prioritas x)) items))"
proof -
  from assms obtain items where
    m: "mapM_sum (prioritas_item df cps cds harga tujuan) [0..<n] = Inr items"
    and r: "ranked = sort_prioritas items"
    by (auto simp: prioritas_klaster_of_def bind_sum_def split: sum.splits)
  have ids: "map Klaster_ID items = [0..<n]"
    by (rule mapM_sum_keys [OF m prioritas_item_id])
  have ms: "mset ranked = mset items"
    by (simp add: r sort_prioritas_def)
  have "sorted (map (\<lambda>x. - Skor_Prioritas x) ranked)"
    by (simp add: r sort_prioritas_def)
  then have desc: "sorted_wrt (\<lambda>a b. Skor_Prioritas b \<le> Skor_Prioritas a) ranked"
    by (simp add: sorted_map)
  have stab: "\<forall>k. filter (\<lambda>x. Skor_Prioritas x = k) ranked
                = filter (\<lambda>x. Skor_Prioritas x = k) items"
  proof
    fix k
    have "filter (\<lambda>x. - Skor_Prioritas x = - k) (sort_key (\<lambda>x. - Skor_Prioritas x) items)
            = filter (\<lambda>x. - Skor_Prioritas x = - k) items"
      by (rule sort_key_stable)
    then show "filter (\<lambda>x. Skor_Prioritas x = k) ranked = filter (\<lambda>x. Skor_Prioritas x = k) items"
      by (simp add: r sort_prioritas_def)
  qed
  have "sorted_wrt (\<lambda>a b. Klaster_ID a < Klaster_ID b) items"
    using ids sorted_wrt_upt [of 0 n] by (metis sorted_wrt_map)
  then have "sorted_wrt (\<lambda>a b. - Skor_Prioritas a < - Skor_Prioritas b \<or>
                (- Skor_Prioritas a = - Skor_Prioritas b \<and> Klaster_ID a < Klaster_ID b))
               (sort_key (\<lambda>x. - Skor_Prioritas x) items)"
    by (rule sort_key_ties)
  then have ties: "sorted_wrt (\<lambda>a b. Skor_Prioritas b < Skor_Prioritas a \<or>
                (Skor_Prioritas a = Skor_Prioritas b \<and> Klaster_ID a < Klaster_ID b)) ranked"
    by (simp add: r sort_prioritas_def)
  have "map fst (sort_key (\<lambda>c. - snd c) (map (\<lambda>x. (Klaster_ID x, Skor_Prioritas x)) items))
          = map fst (map (\<lambda>x. (Klaster_ID x, Skor_Prioritas x))
              (sort_key (\<lambda>x. - snd (Klaster_ID x, Skor_Prioritas x)) items))"
    by (simp only: sort_key_map [of "\<lambda>x. (Klaster_ID x, Skor_Prioritas x)" "\<lambda>c. - snd c"])
  then have key: "map Klaster_ID ranked
             = map fst (sort_key (\<lambda>c. - snd c)
                 (map (\<lambda>x. (Klaster_ID x, Skor_Prioritas x)) items))"
    by (simp add: r sort_prioritas_def comp_def)
  from m ids r ms desc stab ties key show ?thesis by blast
qed

lemma contoh_ranking:
  "map_sum id (map (\<lambda>x. (Klaster_ID x, Skor_Prioritas x, CF_Prioritas x)))
     (prioritas_klaster_of contoh_df contoh_profiles contoh_descriptions 3 100000
        ''mencegah pelanggan churn'')
   = Inr [(1, 10, 1), (0, 5, 97 / 100), (2, 5, 97 / 100)]"
  by (simp add: prioritas_klaster_of_def prioritas_item_def upt_rec loc_def contoh_profiles_def
      contoh_descriptions_def hitung_skor_prioritas_cf_def daya_beli_def spend_level_def
      contoh_pelanggan_def kriteria_kampanye_def kriteria_def contoh_df_def mean_def cf_values
      combine_nonneg sort_prioritas_def)

theorem priority_ranking_stable_witness:
  "\<exists>ranked. prioritas_klaster_of contoh_df contoh_profiles contoh_descriptions 3 100000
                ''mencegah pelanggan churn'' = Inr ranked \<and>
     map Klaster_ID ranked = [1, 0, 2] \<and>
     map Skor_Prioritas ranked = [10, 5, 5] \<and>
     sorted_wrt (\<lambda>a b. Skor_Prioritas b < Skor_Prioritas a \<or>
                        (Skor_Prioritas a = Skor_Prioritas b \<and> Klaster_ID a < Klaster_ID b))
       ranked"
proof -
  obtain ranked where
    e: "prioritas_klaster_of contoh_df contoh_profiles contoh_descriptions 3 100000
          ''mencegah pelanggan churn'' = Inr ranked"
    and v: "map (\<lambda>x. (Klaster_ID x, Skor_Prioritas x, CF_Prioritas x)) ranked
              = [(1, 10, 1), (0, 5, 97 / 100), (2, 5, 97 / 100)]"
    using contoh_ranking
    by (cases "prioritas_klaster_of contoh_df contoh_profiles contoh_descriptions 3 100000
                 ''mencegah pelanggan churn''") auto
  have i: "map Klaster_ID ranked
             = map fst (map (\<lambda>x. (Klaster_ID x, Skor_Prioritas x, CF_Prioritas x)) ranked)"
    and s: "map Skor_Prioritas ranked
             = map (\<lambda>t. fst (snd t)) (map (\<lambda>x. (Klaster_ID x, Skor_Prioritas x, CF_Prioritas x)) ranked)"
    by (simp_all add: comp_def)
  have t: "sorted_wrt (\<lambda>a b. Skor_Prioritas b < Skor_Prioritas a \<or>
                        (Skor_Prioritas a = Skor_Prioritas b \<and> Klaster_ID a < Klaster_ID b))
          ranked"
    using priority_ranking_stable [OF e] by blast
  have k: "map Klaster_ID ranked = [1, 0, 2]" unfolding i v by simp
  have c: "map Skor_Prioritas ranked = [10, 5, 5]" unfolding s v by simp
  show ?thesis
    by (rule exI [of _ ranked], intro conjI, fact e, fact k, fact c, fact t)
qed

subsection \<open>The orchestrator\<close>

lemma mapM_sum_map:
  "(\<And>x. x \<in> set xs \<Longrightarrow> f x = Inr (g x)) \<Longrightarrow> mapM_sum f xs = Inr (map g xs)"
  by (induction xs) auto

lemma mapM_sum_total:
  assumes "\<And>x. x \<in> set xs \<Longrightarrow> \<exists>y. f x = Inr y"
  shows "\<exists>ys. mapM_sum f xs = Inr ys"
  using assms
proof (induction xs)
  case Nil
  then show ?case by simp
next
  case (Cons a xs)
  from Cons.prems [of a] obtain y where y: "f a = Inr y" by auto
  from Cons.IH Cons.prems obtain ys where ys: "mapM_sum f xs = Inr ys" by auto
  show ?case by (simp add: y ys)
qed

lemma mapM_sum_error:
  assumes "x \<in> set xs" and "f x = Inl e"
    and "\<And>y e'. y \<in> set xs \<Longrightarrow> f y = Inl e' \<Longrightarrow> e' = e"
  shows "mapM_sum f xs = Inl e"
  using assms
proof (induction xs)
  case Nil
  then show ?case by simp
next
  case (Cons a xs)
  show ?case
  proof (cases "f a")
    case (Inl e')
    have "a \<in> set (a # xs)" by simp
    from Cons.prems(3) [OF this Inl] have "e' = e" .
    with Inl show ?thesis by simp
  next
    case (Inr y)
    have "x \<noteq> a" using Inr Cons.prems(2) by auto
    with Cons.prems(1) have xin: "x \<in> set xs" by simp
    have "mapM_sum f xs = Inl e"
    proof (rule Cons.IH [OF xin Cons.prems(2)])
      fix z e'
      assume "z \<in> set xs" and fz: "f z = Inl e'"
      then have "z \<in> set (a # xs)" by simp
      from Cons.prems(3) [OF this fz] show "e' = e" .
    qed
    with Inr show ?thesis by simp
  qed
qed

lemma map_of_keys:
  "map_of (map (\<lambda>k. (k, f k)) ks) i = (if i \<in> set ks then Some (f i) else None)"
  by (induction ks) auto

lemma loc_groupby:
  "loc (groupby_agg rs labels) i
     = (if i \<in> set labels then Inr (agg_profile (group_rows rs labels i)) else Inl KeyError)"
  by (simp add: loc_def groupby_agg_def map_of_keys)

lemma loc_range:
  "loc (map (\<lambda>i. (i, d i)) [0..<n]) i = (if i < n then Inr (d i) else Inl KeyError)"
  by (simp add: loc_def map_of_keys)

lemma descriptions_error:
  assumes "i < n" "i \<notin> set labels"
  shows "cluster_descriptions_of df (groupby_agg rs labels) n = Inl KeyError"
proof -
  let ?f = "\<lambda>i. bind_sum (loc (groupby_agg rs labels) i) (\<lambda>p. Inr (i, describe df i p))"
  have 1: "i \<in> set [0..<n]" using assms by simp
  have 2: "?f i = Inl KeyError" using assms by (simp add: loc_groupby)
  have 3: "e' = KeyError" if "y \<in> set [0..<n]" "?f y = Inl e'" for y e'
  proof (cases "y \<in> set labels")
    case True
    with that(2) show ?thesis by (simp add: loc_groupby)
  next
    case False
    with that(2) show ?thesis by (simp add: loc_groupby)
  qed
  show ?thesis
    unfolding cluster_descriptions_of_def using mapM_sum_error [of i "[0..<n]" ?f KeyError, OF 1 2 3] by simp
qed

lemma descriptions_ok:
  assumes "\<And>i. i < n \<Longrightarrow> i \<in> set labels"
  shows "cluster_descriptions_of df (groupby_agg rs labels) n
           = Inr (map (\<lambda>i. (i, describe df i (agg_profile (group_rows rs labels i)))) [0..<n])"
proof -
  have "bind_sum (loc (groupby_agg rs labels) i) (\<lambda>p. Inr (i, describe df i p))
          = Inr (i, describe df i (agg_profile (group_rows rs labels i)))"
    if "i \<in> set [0..<n]" for i
  proof -
    from that have "i \<in> set labels" using assms by simp
    then show ?thesis by (simp add: loc_groupby)
  qed
  then show ?thesis
    unfolding cluster_descriptions_of_def
    using mapM_sum_map
      [of "[0..<n]" "\<lambda>i. bind_sum (loc (groupby_agg rs labels) i) (\<lambda>p. Inr (i, describe df i p))"
        "\<lambda>i. (i, describe df i (agg_profile (group_rows rs labels i)))"]
    by blast
qed

lemma ok_kriteria0:
  assumes "0 \<le> c" "c \<le> 1" "0 \<le> v" "v \<le> 1"
  shows "skor_cf_ok (kriteria cond k v (s, c))"
proof (cases cond)
  case True
  have "0 \<le> c + v * (1 - c)" "c + v * (1 - c) \<le> 1"
    using cf_nonneg_range [OF assms] by blast+
  with True assms show ?thesis
    by (simp add: skor_cf_ok_def kriteria_def combine_nonneg)
next
  case False
  with assms show ?thesis by (simp add: skor_cf_ok_def kriteria_def)
qed

lemma ok_kriteria:
  assumes "skor_cf_ok m" "0 \<le> v" "v \<le> 1"
  shows "skor_cf_ok (bind_sum m (kriteria cond k v))"
proof -
  from assms(1) obtain s c where m: "m = Inr (s, c)" and c: "0 \<le> c" "c \<le> 1"
    unfolding skor_cf_ok_def by blast
  show ?thesis unfolding m using ok_kriteria0 [OF c assms(2,3)] by simp
qed

lemma bind_sum_assoc:
  "bind_sum m (\<lambda>x. bind_sum (f x) g) = bind_sum (bind_sum m f) g"
  by (cases m) simp_all

lemma kriteria_kampanye_ok: "skor_cf_ok (kriteria_kampanye df p t (s0, 0))"
proof -
  have z: "skor_cf_ok (Inr (s0, 0))" by (simp add: skor_cf_ok_def)
  have k: "skor_cf_ok (kriteria cond k v (s0, 0))" if "0 \<le> v" "v \<le> 1" for cond k v
    using ok_kriteria0 [of 0 v cond k s0] that by simp
  show ?thesis
    unfolding kriteria_kampanye_def bind_sum_assoc cf_values
    by (simp add: z k ok_kriteria)
qed

lemma hitung_ok:
  "\<exists>s c. hitung_skor_prioritas_cf df p h t = Inr (s, c) \<and> 0 \<le> c \<and> c \<le> 1"
proof -
  obtain s c where k: "kriteria_kampanye df p t (base_skor p h, 0) = Inr (s, c)"
    and c: "0 \<le> c" "c \<le> 1"
    using kriteria_kampanye_ok [of df p t "base_skor p h"] unfolding skor_cf_ok_def by blast
  have "0 \<le> base_cf p h + c * (1 - base_cf p h)" "base_cf p h + c * (1 - base_cf p h) \<le> 1"
    using cf_nonneg_range [OF base_cf_range c] by blast+
  with hitung_eq [OF k c(1)] show ?thesis by blast
qed

lemma prioritas_item_ok:
  assumes "cid < n" "cid \<in> set labels"
  shows "\<exists>y. prioritas_item df (groupby_agg rs labels) (map (\<lambda>i. (i, d i)) [0..<n]) h t cid = Inr y"
proof -
  obtain s c where "hitung_skor_prioritas_cf df (agg_profile (group_rows rs labels cid)) h t = Inr (s, c)"
    using hitung_ok by blast
  then show ?thesis
    using assms by (simp add: prioritas_item_def loc_groupby loc_range)
qed

lemma prioritas_ok:
  assumes "\<And>i. i < n \<Longrightarrow> i \<in> set labels"
  shows "\<exists>ranked. prioritas_klaster_of df (groupby_agg rs labels) (map (\<lambda>i. (i, d i)) [0..<n]) n h t
                    = Inr ranked \<and> set (map Klaster_ID ranked) = {..<n} \<and> length ranked = n"
proof -
  let ?f = "prioritas_item df (groupby_agg rs labels) (map (\<lambda>i. (i, d i)) [0..<n]) h t"
  have "\<exists>y. ?f x = Inr y" if "x \<in> set [0..<n]" for x
    using that assms prioritas_item_ok [of x n labels df rs d h t] by simp
  then obtain items where m: "mapM_sum ?f [0..<n] = Inr items"
    using mapM_sum_total [of "[0..<n]" ?f] by blast
  have ids: "map Klaster_ID items = [0..<n]"
    using mapM_sum_keys [of ?f "[0..<n]" items Klaster_ID, OF m] prioritas_item_id by blast
  have len: "length items = n"
    using arg_cong [OF ids, of length] by simp
  have "set (map Klaster_ID (sort_prioritas items)) = set (map Klaster_ID items)"
    by (simp add: sort_prioritas_def)
  then have st: "set (map Klaster_ID (sort_prioritas items)) = {..<n}"
    unfolding ids by (simp add: atLeast0LessThan)
  have r: "prioritas_klaster_of df (groupby_agg rs labels) (map (\<lambda>i. (i, d i)) [0..<n]) n h t
             = Inr (sort_prioritas items)"
    by (simp add: prioritas_klaster_of_def m)
  have "length (sort_prioritas items) = n"
    by (simp add: sort_prioritas_def len)
  with r st show ?thesis by blast
qed

lemma fc_ok:
  assumes "\<And>x. x \<in> set ranked \<Longrightarrow> Klaster_ID x \<in> set labels"
  shows "\<exists>fc. fc_results_of df (groupby_agg rs labels) ranked = Inr fc"
proof -
  let ?f = "\<lambda>item. bind_sum (loc (groupby_agg rs labels) (Klaster_ID item))
          (\<lambda>profile. Inr (Klaster_ID item, filter (\<lambda>rule. rule_IF rule profile) (marketing_rules_fc df)))"
  have "\<exists>y. ?f x = Inr y" if "x \<in> set ranked" for x
    using assms [OF that] by (simp add: loc_groupby)
  then show ?thesis
    unfolding fc_results_of_def using mapM_sum_total [of ranked ?f] by blast
qed

lemma bc_ok:
  assumes "\<And>i. i < n \<Longrightarrow> i \<in> set labels"
  shows "\<exists>bc. bc_results_of df (groupby_agg rs labels) (map (\<lambda>i. (i, d i)) [0..<n]) n t = Inr bc"
proof (cases "map_of (marketing_rules_bc df) t")
  case None
  then show ?thesis by (simp add: bc_results_of_def)
next
  case (Some rule)
  let ?f = "\<lambda>cid. bind_sum (loc (groupby_agg rs labels) cid) (\<lambda>profile.
                  if THEN_IF rule profile
                  then bind_sum (loc (map (\<lambda>i. (i, d i)) [0..<n]) cid) (\<lambda>d.
                         Inr (Some \<lparr> bc_Klaster_ID = cid, bc_Deskripsi = d, Strategi = STRATEGY rule \<rparr>))
                  else Inr None)"
  have "\<exists>y. ?f x = Inr y" if "x \<in> set [0..<n]" for x
  proof -
    from that have "x < n" "x \<in> set labels" using assms by simp_all
    then show ?thesis by (simp add: loc_groupby loc_range)
  qed
  then obtain es where "mapM_sum ?f [0..<n] = Inr es"
    using mapM_sum_total [of "[0..<n]" ?f] by blast
  then show ?thesis using Some by (simp add: bc_results_of_def)
qed

lemma top_ok:
  assumes "ranked \<noteq> []"
  shows "\<exists>ts. top_strategy_of bc fc ranked = Inr ts"
proof (cases bc)
  case (Cons b bs)
  then show ?thesis by (simp add: top_strategy_of_def)
next
  case Nil
  from assms obtain item rest where r: "ranked = item # rest" by (cases ranked) auto
  show ?thesis
  proof (cases "map_of fc (Klaster_ID item)")
    case None
    with Nil r show ?thesis by (simp add: top_strategy_of_def)
  next
    case (Some rules)
    with Nil r show ?thesis by (cases rules) (simp_all add: top_strategy_of_def)
  qed
qed

lemma missing_label:
  assumes "card (set labels) < n"
  shows "\<exists>i<n. i \<notin> set labels"
proof (rule ccontr)
  assume "\<not> (\<exists>i<n. i \<notin> set labels)"
  then have "{..<n} \<subseteq> set labels" by auto
  then have "card {..<n} \<le> card (set labels)" by (intro card_mono) simp_all
  with assms show False by simp
qed

lemma analyse_degenerate:
  assumes "preprocess libs df = Inr m" "evaluate libs m = Inr fig"
    and "kmeans_fit_predict libs n m = Inr labels" "length labels = length (rows df)"
    and "i < n" "i \<notin> set labels"
  shows "analyse libs df n h t = Inl KeyError"
  using assms(1-4) descriptions_error [OF assms(5,6), of df "rows df"]
  by (simp add: analyse_def)

lemma analyse_ok:
  assumes "preprocess libs df = Inr m" "evaluate libs m = Inr fig"
    and "kmeans_fit_predict libs n m = Inr labels" "length labels = length (rows df)"
    and all: "\<And>i. i < n \<Longrightarrow> i \<in> set labels" and n: "0 < n"
    and "gnb_fit libs m labels = Inr ()"
  shows "\<exists>b. analyse libs df n h t = Inr b \<and>
           evaluation_plot b = fig \<and>
           df_with_clusters b = zip (rows df) labels \<and>
           cluster_profiles b = groupby_agg (rows df) labels \<and>
           map fst (cluster_descriptions b) = [0..<n] \<and>
           set (map Klaster_ID (prioritas_klaster b)) = {..<n} \<and>
           length (prioritas_klaster b) = n"
proof -
  let ?ps = "groupby_agg (rows df) labels"
  let ?d = "\<lambda>i. describe df i (agg_profile (group_rows (rows df) labels i))"
  let ?ds = "map (\<lambda>i. (i, ?d i)) [0..<n]"
  have ds: "cluster_descriptions_of df ?ps n = Inr ?ds"
    by (rule descriptions_ok [OF all])
  obtain ranked where r: "prioritas_klaster_of df ?ps ?ds n h t = Inr ranked"
    and rs: "set (map Klaster_ID ranked) = {..<n}" and rl: "length ranked = n"
    using prioritas_ok [of n labels df "rows df" ?d h t] all by blast
  have "Klaster_ID x \<in> set labels" if "x \<in> set ranked" for x
  proof -
    from that have "Klaster_ID x \<in> set (map Klaster_ID ranked)" by simp
    with rs show ?thesis using all by simp
  qed
  then obtain fc where fc: "fc_results_of df ?ps ranked = Inr fc"
    using fc_ok [of ranked labels df "rows df"] by blast
  obtain bc where bc: "bc_results_of df ?ps ?ds n t = Inr bc"
    using bc_ok [of n labels df "rows df" ?d t] all by blast
  have "ranked \<noteq> []" using rl n by auto
  then obtain ts where ts: "top_strategy_of bc fc ranked = Inr ts"
    using top_ok by blast
  have m: "map fst ?ds = [0..<n]" by (simp add: comp_def)
  show ?thesis
    using assms(1-4,7) rs rl m
    by (simp add: analyse_def ds r fc bc ts Let_def)
qed

lemma contoh_df_complete: "missing_column contoh_df = None"
  by (simp add: missing_column_def contoh_df_def fitur_numerik_def fitur_kategorikal_def)

lemma run_after_schema:
  assumes "read_csv libs file_path = Inr df" "missing_column df = None"
  shows "run_full_analysis libs file_path n harga tujuan
           = bind_sum (analyse libs df n harga tujuan) (\<lambda>b. Inr (Results b))"
  using assms by (simp add: run_full_analysis_def)

text \<open>
  C10 (amended). When the CSV reader raises \<open>FileNotFoundError\<close> for the path, the analysis
  returns the dictionary whose only entry is the error message that ends with the path;
  nothing is raised, and none of the other library calls has a part in the result. Any
  other error of the reader is not caught and leaves the analysis as it was raised, also
  when the path refers to no existing file (a path below a regular file makes the reader
  raise \<open>NotADirectoryError\<close>).
\<close>

theorem missing_file_error:
  "(read_csv libs file_path = Inl FileNotFoundError \<longrightarrow>
      run_full_analysis libs file_path n harga tujuan
        = Inr (Error (''File tidak ditemukan di path: '' @ file_path))) \<and>
   (\<forall>e. read_csv libs file_path = Inl e \<and> e \<noteq> FileNotFoundError \<longrightarrow>
      run_full_analysis libs file_path n harga tujuan = Inl e)"
  by (simp add: run_full_analysis_def file_error_def)

theorem missing_file_error_witness:
  "run_full_analysis (contoh_libs None []) ''tidak_ada.csv'' 3 100000 ''mencegah pelanggan churn''
     = Inr (Error ''File tidak ditemukan di path: tidak_ada.csv'') \<and>
   run_full_analysis (contoh_libs_gagal NotADirectoryError) ''/etc/passwd/x.csv'' 3 100000
     ''mencegah pelanggan churn'' = Inl NotADirectoryError"
proof -
  have r1: "read_csv (contoh_libs None []) ''tidak_ada.csv'' = Inl FileNotFoundError"
    by (simp add: contoh_libs_def)
  have r2: "read_csv (contoh_libs_gagal NotADirectoryError) ''/etc/passwd/x.csv''
              = Inl NotADirectoryError \<and> NotADirectoryError \<noteq> FileNotFoundError"
    by (simp add: contoh_libs_gagal_def)
  from missing_file_error
    [of "contoh_libs None []" "''tidak_ada.csv''" 3 100000 "''mencegah pelanggan churn''"] r1
  have a: "run_full_analysis (contoh_libs None []) ''tidak_ada.csv'' 3 100000
      ''mencegah pelanggan churn'' = Inr (Error ''File tidak ditemukan di path: tidak_ada.csv'')"
    by simp
  from missing_file_error
    [of "contoh_libs_gagal NotADirectoryError" "''/etc/passwd/x.csv''" 3 100000
      "''mencegah pelanggan churn''"] r2
  have b: "run_full_analysis (contoh_libs_gagal NotADirectoryError) ''/etc/passwd/x.csv'' 3 100000
     ''mencegah pelanggan churn'' = Inl NotADirectoryError"
    by blast
  from a b show ?thesis by (rule conjI)
qed

theorem missing_file_not_caught:
  "run_full_analysis (contoh_libs_gagal NotADirectoryError) ''/etc/passwd/x.csv'' 3 100000
     ''mencegah pelanggan churn'' = Inl NotADirectoryError"
  by (simp add: run_full_analysis_def contoh_libs_gagal_def)

text \<open>
  C2. Once the table is read: if a required numeric or categorical column is missing, the
  analysis returns the single error value whose message quotes the name of the first missing
  column in the order of the required list, whatever the scaling, encoding and clustering calls would do (they
  are never reached), and returns nothing else; if every required column is present, the run
  continues into the analysis and its result is never an error value.
\<close>

theorem schema_check:
  fixes libs :: "('m, 'fig) libs"
  assumes "read_csv libs file_path = Inr df"
  shows "((\<exists>col\<in>set (fitur_numerik @ fitur_kategorikal). col \<notin> set (columns df)) \<longrightarrow>
            (\<exists>col. missing_column df = Some col \<and>
               col \<in> set (fitur_numerik @ fitur_kategorikal) \<and> col \<notin> set (columns df) \<and>
               run_full_analysis libs file_path n harga tujuan = Inr (Error (''Kolom yang dibutuhkan '' @ [CHR 0x27] @ col @ [CHR 0x27]
                    @ '' tidak ditemukan di dalam file CSV Anda.'')) \<and>
               (\<forall>libs' :: ('m, 'fig) libs. read_csv libs' file_path = Inr df \<longrightarrow>
                  run_full_analysis libs' file_path n harga tujuan
                    = Inr (Error (''Kolom yang dibutuhkan '' @ [CHR 0x27] @ col @ [CHR 0x27]
                    @ '' tidak ditemukan di dalam file CSV Anda.''))))) \<and>
         ((\<forall>col\<in>set (fitur_numerik @ fitur_kategorikal). col \<in> set (columns df)) \<longrightarrow>
            missing_column df = None \<and>
            run_full_analysis libs file_path n harga tujuan
              = bind_sum (analyse libs df n harga tujuan) (\<lambda>b. Inr (Results b)) \<and>
            (\<forall>msg. run_full_analysis libs file_path n harga tujuan \<noteq> Inr (Error msg)))"
proof (intro conjI impI)
  assume "\<exists>col\<in>set (fitur_numerik @ fitur_kategorikal). col \<notin> set (columns df)"
  then have "missing_column df \<noteq> None"
    unfolding missing_column_def by (simp only: find_None_iff) blast
  then obtain col where c: "missing_column df = Some col" by blast
  then obtain i where "i < length (fitur_numerik @ fitur_kategorikal)"
    and "col = (fitur_numerik @ fitur_kategorikal) ! i" and "col \<notin> set (columns df)"
    unfolding missing_column_def find_Some_iff by blast
  then have "col \<in> set (fitur_numerik @ fitur_kategorikal)" "col \<notin> set (columns df)"
    using nth_mem by blast+
  moreover have "run_full_analysis l file_path n harga tujuan
      = Inr (Error (''Kolom yang dibutuhkan '' @ [CHR 0x27] @ col @ [CHR 0x27]
                    @ '' tidak ditemukan di dalam file CSV Anda.''))"
    if "read_csv l file_path = Inr df" for l :: "('m, 'fig) libs"
    using that c by (simp add: run_full_analysis_def schema_error_def)
  ultimately show "\<exists>col. missing_column df = Some col \<and>
               col \<in> set (fitur_numerik @ fitur_kategorikal) \<and> col \<notin> set (columns df) \<and>
               run_full_analysis libs file_path n harga tujuan = Inr (Error (''Kolom yang dibutuhkan '' @ [CHR 0x27] @ col @ [CHR 0x27]
                    @ '' tidak ditemukan di dalam file CSV Anda.'')) \<and>
               (\<forall>libs' :: ('m, 'fig) libs. read_csv libs' file_path = Inr df \<longrightarrow>
                  run_full_analysis libs' file_path n harga tujuan
                    = Inr (Error (''Kolom yang dibutuhkan '' @ [CHR 0x27] @ col @ [CHR 0x27]
                    @ '' tidak ditemukan di dalam file CSV Anda.'')))"
    using c assms by blast
next
  assume a: "\<forall>col\<in>set (fitur_numerik @ fitur_kategorikal). col \<in> set (columns df)"
  then show none: "missing_column df = None"
    unfolding missing_column_def by (simp only: find_None_iff) blast
  from run_after_schema [OF assms none]
  show r: "run_full_analysis libs file_path n harga tujuan
             = bind_sum (analyse libs df n harga tujuan) (\<lambda>b. Inr (Results b))" .
  show "\<forall>msg. run_full_analysis libs file_path n harga tujuan \<noteq> Inr (Error msg)"
    unfolding r by (cases "analyse libs df n harga tujuan") simp_all
qed

theorem schema_check_witness:
  "run_full_analysis (contoh_libs (Some (contoh_df\<lparr>columns := fitur_numerik\<rparr>)) []) ''data.csv'' 2
      100000 ''mencegah pelanggan churn'' = Inr (Error ''Kolom yang dibutuhkan 'Gender' tidak ditemukan di dalam file CSV Anda.'') \<and>
   (\<forall>msg. run_full_analysis (contoh_libs (Some contoh_df) [0, 1]) ''data.csv'' 2 100000
      ''mencegah pelanggan churn'' \<noteq> Inr (Error msg))"
proof -
  let ?d = "contoh_df\<lparr>columns := fitur_numerik\<rparr>"
  have r1: "read_csv (contoh_libs (Some ?d) []) ''data.csv'' = Inr ?d"
    by (simp add: contoh_libs_def)
  have m1: "\<exists>col\<in>set (fitur_numerik @ fitur_kategorikal). col \<notin> set (columns ?d)"
    by (simp add: fitur_numerik_def fitur_kategorikal_def)
  have g: "missing_column ?d = Some ''Gender''"
    by (simp add: missing_column_def fitur_numerik_def fitur_kategorikal_def)
  from schema_check [OF r1, of 2 100000 "''mencegah pelanggan churn''"] m1
  obtain col where "missing_column ?d = Some col"
    and "run_full_analysis (contoh_libs (Some ?d) []) ''data.csv'' 2 100000
           ''mencegah pelanggan churn'' = Inr (Error (''Kolom yang dibutuhkan '' @ [CHR 0x27] @ col @ [CHR 0x27]
                    @ '' tidak ditemukan di dalam file CSV Anda.''))"
    by blast
  with g have a: "run_full_analysis (contoh_libs (Some ?d) []) ''data.csv'' 2 100000
           ''mencegah pelanggan churn'' = Inr (Error ''Kolom yang dibutuhkan 'Gender' tidak ditemukan di dalam file CSV Anda.'')"
    by simp
  have r2: "read_csv (contoh_libs (Some contoh_df) [0, 1]) ''data.csv'' = Inr contoh_df"
    by (simp add: contoh_libs_def)
  have m2: "\<forall>col\<in>set (fitur_numerik @ fitur_kategorikal). col \<in> set (columns contoh_df)"
    by (simp add: contoh_df_def)
  from schema_check [OF r2, of 2 100000 "''mencegah pelanggan churn''"] m2
  have b: "\<forall>msg. run_full_analysis (contoh_libs (Some contoh_df) [0, 1]) ''data.csv'' 2 100000
      ''mencegah pelanggan churn'' \<noteq> Inr (Error msg)"
    by blast
  from a b show ?thesis by (rule conjI)
qed

subsection \<open>Rendered numbers\<close>

lemma round_half_even_near: "\<bar>of_int (round_half_even y) - y\<bar> \<le> 1 / 2"
proof -
  define f where "f = \<lfloor>y\<rfloor>"
  have b: "of_int f \<le> y" "y < of_int f + 1" unfolding f_def by linarith+
  have r: "round_half_even y =
      (if y - of_int f < 1 / 2 then f else if 1 / 2 < y - of_int f then f + 1
       else if even f then f else f + 1)"
    by (simp add: round_half_even_def Let_def f_def)
  show ?thesis unfolding r using b by (auto simp: abs_if)
qed

lemma round2_near: "\<bar>round2 x - x\<bar> \<le> 1 / 200"
proof -
  have "\<bar>of_int (round_half_even (x * 100)) - x * 100\<bar> \<le> 1 / 2"
    by (rule round_half_even_near)
  then have "\<bar>(of_int (round_half_even (x * 100)) - x * 100) / 100\<bar> \<le> (1 / 2) / 100"
    by (simp only: abs_divide) (simp add: divide_right_mono)
  then show ?thesis by (simp add: round2_def diff_divide_distrib)
qed

lemma round2_places: "\<exists>k::int. round2 x = of_int k / 100"
  unfolding round2_def by blast

lemma py_int_trunc: "\<bar>of_int (py_int x) - x\<bar> < 1"
proof -
  define f where "f = \<lfloor>x\<rfloor>"
  define c where "c = \<lceil>x\<rceil>"
  have b: "of_int f \<le> x" "x < of_int f + 1" "x \<le> of_int c" "of_int c < x + 1"
    unfolding f_def c_def by linarith+
  have r: "py_int x = (if 0 \<le> x then f else c)"
    by (simp add: py_int_def f_def c_def)
  show ?thesis unfolding r using b by (auto simp: abs_if)
qed

text \<open>
  C9 (amended). In the description of a segment, income and spend (each divided by one
  million) are printed rounded to two decimal places, and the satisfaction score is the
  segment mean rounded to two decimal places; the age is the rounded mean age cut down to a
  whole number by \<open>int()\<close>, so it is within one year of the mean and not a two-place
  rounding of it.
\<close>

theorem description_rounding:
  "usia (describe df i (agg_profile g)) = py_int (round2 (mean (map Age g))) \<and>
   \<bar>of_int (usia (describe df i (agg_profile g))) - Age (agg_profile g)\<bar> < 1 \<and>
   pendapatan (describe df i (agg_profile g))
     = round2 (round2 (mean (map Annual_Income g)) / 1000000) \<and>
   \<bar>pendapatan (describe df i (agg_profile g)) - Annual_Income (agg_profile g) / 1000000\<bar>
     \<le> 1 / 200 \<and>
   (\<exists>k::int. pendapatan (describe df i (agg_profile g)) = of_int k / 100) \<and>
   pengeluaran (describe df i (agg_profile g))
     = round2 (round2 (mean (map Total_Spend g)) / 1000000) \<and>
   \<bar>pengeluaran (describe df i (agg_profile g)) - Total_Spend (agg_profile g) / 1000000\<bar>
     \<le> 1 / 200 \<and>
   (\<exists>k::int. pengeluaran (describe df i (agg_profile g)) = of_int k / 100) \<and>
   kepuasan (describe df i (agg_profile g)) = round2 (mean (map Satisfaction_Score g)) \<and>
   \<bar>kepuasan (describe df i (agg_profile g)) - mean (map Satisfaction_Score g)\<bar> \<le> 1 / 200 \<and>
   (\<exists>k::int. kepuasan (describe df i (agg_profile g)) = of_int k / 100)"
proof -
  have sel: "usia (describe df i p) = py_int (Age p)"
    "pendapatan (describe df i p) = round2 (Annual_Income p / 1000000)"
    "pengeluaran (describe df i p) = round2 (Total_Spend p / 1000000)"
    "kepuasan (describe df i p) = Satisfaction_Score p" for p
    by (simp_all add: describe_def fmt_2f_def)
  have agg: "Age (agg_profile g) = round2 (mean (map Age g))"
    "Annual_Income (agg_profile g) = round2 (mean (map Annual_Income g))"
    "Total_Spend (agg_profile g) = round2 (mean (map Total_Spend g))"
    "Satisfaction_Score (agg_profile g) = round2 (mean (map Satisfaction_Score g))"
    by (simp_all add: agg_profile_def)
  show ?thesis
    unfolding sel agg by (intro conjI refl round2_near round2_places py_int_trunc)
qed

theorem description_age_truncated:
  "round2 (mean (map Age (rows contoh_df))) = 71 / 2 \<and>
   usia (describe contoh_df 0 (agg_profile (rows contoh_df))) = 35 \<and>
   real_of_int (usia (describe contoh_df 0 (agg_profile (rows contoh_df))))
     \<noteq> round2 (mean (map Age (rows contoh_df)))"
  by (simp add: describe_def agg_profile_def contoh_df_def contoh_pelanggan_def mean_def
      round2_def round_half_even_def py_int_def)

subsection \<open>Segments without members\<close>

lemma run_degenerate:
  assumes "read_csv libs file_path = Inr df" "missing_column df = None"
    and "preprocess libs df = Inr m" "evaluate libs m = Inr fig"
    and "kmeans_fit_predict libs n m = Inr labels" "length labels = length (rows df)"
    and "i < n" "i \<notin> set labels"
  shows "run_full_analysis libs file_path n harga tujuan = Inl KeyError"
  using run_after_schema [OF assms(1,2)] analyse_degenerate [OF assms(3-8)] by simp

text \<open>
  C8 (amended). The analysis has no check for a degenerate partition. When the table is
  read, the schema is complete and the library calls succeed with one label per row: if
  the labels form fewer groups than the requested \<open>K\<close>, or more generally leave a segment id
  below \<open>K\<close> without members, the run ends in an unhandled \<open>KeyError\<close> from the profile
  lookup of that id, and neither an error value nor a result is returned; if every id
  below \<open>K\<close> has a member (and \<open>K\<close> is positive and the classifier fit succeeds), the run
  returns a full result with one description and one priority entry per segment.
\<close>

theorem degenerate_clustering:
  assumes "read_csv libs file_path = Inr df" "missing_column df = None"
    and "preprocess libs df = Inr m" "evaluate libs m = Inr fig"
    and "kmeans_fit_predict libs n m = Inr labels" "length labels = length (rows df)"
  shows "(card (set labels) < n \<longrightarrow>
            run_full_analysis libs file_path n harga tujuan = Inl KeyError) \<and>
         ((\<exists>i<n. i \<notin> set labels) \<longrightarrow>
            run_full_analysis libs file_path n harga tujuan = Inl KeyError) \<and>
         ((\<forall>i<n. i \<in> set labels) \<and> 0 < n \<and> gnb_fit libs m labels = Inr () \<longrightarrow>
            (\<exists>b. run_full_analysis libs file_path n harga tujuan = Inr (Results b) \<and>
                 map fst (cluster_profiles b) = sort (remdups labels) \<and>
                 map fst (cluster_descriptions b) = [0..<n] \<and>
                 length (prioritas_klaster b) = n))"
proof (intro conjI impI)
  assume "card (set labels) < n"
  then obtain i where "i < n" "i \<notin> set labels" using missing_label by blast
  then show "run_full_analysis libs file_path n harga tujuan = Inl KeyError"
    by (rule run_degenerate [OF assms])
next
  assume "\<exists>i<n. i \<notin> set labels"
  then obtain i where "i < n" "i \<notin> set labels" by blast
  then show "run_full_analysis libs file_path n harga tujuan = Inl KeyError"
    by (rule run_degenerate [OF assms])
next
  assume a: "(\<forall>i<n. i \<in> set labels) \<and> 0 < n \<and> gnb_fit libs m labels = Inr ()"
  then have all: "\<And>i. i < n \<Longrightarrow> i \<in> set labels" and n: "0 < n"
    and g: "gnb_fit libs m labels = Inr ()" by simp_all
  from analyse_ok [OF assms(3-6) all n g, of harga tujuan]
  obtain b where b: "analyse libs df n harga tujuan = Inr b"
    and p: "cluster_profiles b = groupby_agg (rows df) labels"
    and d: "map fst (cluster_descriptions b) = [0..<n]"
    and l: "length (prioritas_klaster b) = n"
    by blast
  have "map fst (cluster_profiles b) = sort (remdups labels)"
    unfolding p groupby_agg_def by (simp add: comp_def)
  with b d l run_after_schema [OF assms(1,2), of n harga tujuan]
  show "\<exists>b. run_full_analysis libs file_path n harga tujuan = Inr (Results b) \<and>
                 map fst (cluster_profiles b) = sort (remdups labels) \<and>
                 map fst (cluster_descriptions b) = [0..<n] \<and>
                 length (prioritas_klaster b) = n"
    by simp
qed

lemma contoh_libs_calls:
  "read_csv (contoh_libs (Some df) labels) path = Inr df"
  "preprocess (contoh_libs d labels) df = Inr ()"
  "evaluate (contoh_libs d labels) () = Inr ()"
  "kmeans_fit_predict (contoh_libs d labels) n () = Inr labels"
  "gnb_fit (contoh_libs d labels) () labels = Inr ()"
  by (simp_all add: contoh_libs_def)

lemma contoh_rows: "length (rows contoh_df) = 2"
  by (simp add: contoh_df_def)

theorem degenerate_clustering_keyerror:
  "run_full_analysis (contoh_libs (Some contoh_df) [0, 0]) ''data.csv'' 2 100000
     ''mencegah pelanggan churn'' = Inl KeyError"
  by (rule run_degenerate [of _ _ contoh_df "()" "()" 2 "[0, 0]" 1])
    (simp_all add: contoh_libs_calls contoh_df_complete contoh_rows)

theorem degenerate_clustering_witness:
  "run_full_analysis (contoh_libs (Some contoh_df) [0, 0]) ''data.csv'' 2 100000
     ''mencegah pelanggan churn'' = Inl KeyError \<and>
   (\<exists>b. run_full_analysis (contoh_libs (Some contoh_df) [0, 1]) ''data.csv'' 2 100000
          ''mencegah pelanggan churn'' = Inr (Results b) \<and>
        map fst (cluster_descriptions b) = [0..<2] \<and>
        length (prioritas_klaster b) = 2)"
proof -
  have c: "card (set [0, 0 :: nat]) < 2" by simp
  have l: "length [0, 0 :: nat] = length (rows contoh_df)" by (simp add: contoh_rows)
  from degenerate_clustering
    [of "contoh_libs (Some contoh_df) [0, 0]" "''data.csv''" contoh_df "()" "()" 2 "[0, 0]"
      100000 "''mencegah pelanggan churn''",
      OF contoh_libs_calls(1) contoh_df_complete contoh_libs_calls(2,3,4) l] c
  have a: "run_full_analysis (contoh_libs (Some contoh_df) [0, 0]) ''data.csv'' 2 100000
     ''mencegah pelanggan churn'' = Inl KeyError"
    by blast
  have l1: "length [0, 1 :: nat] = length (rows contoh_df)" by (simp add: contoh_rows)
  have all: "(\<forall>i<2. i \<in> set [0, 1 :: nat]) \<and> (0 :: nat) < 2 \<and>
      gnb_fit (contoh_libs (Some contoh_df) [0, 1]) () [0, 1] = Inr ()"
    by (auto simp: contoh_libs_calls less_2_cases_iff)
  from degenerate_clustering
    [of "contoh_libs (Some contoh_df) [0, 1]" "''data.csv''" contoh_df "()" "()" 2 "[0, 1]"
      100000 "''mencegah pelanggan churn''",
      OF contoh_libs_calls(1) contoh_df_complete contoh_libs_calls(2,3,4) l1] all
  have b: "\<exists>b. run_full_analysis (contoh_libs (Some contoh_df) [0, 1]) ''data.csv'' 2 100000
          ''mencegah pelanggan churn'' = Inr (Results b) \<and>
        map fst (cluster_descriptions b) = [0..<2] \<and>
        length (prioritas_klaster b) = 2"
    by blast
  from a b show ?thesis by (rule conjI)
qed

end
